theory Spec2Isabelle
  imports Complex_Main
begin

section \<open>The Helix bridge of ZenottaJS: data model\<close>

text \<open>
  The development follows the latest revision of the bridge: the generic trade base
  \<open>HelixBridge\<close> (protobridge) and its Bitcoin subclass \<open>HelixBridgeBTC\<close>.

  JavaScript numbers that count satoshis, inputs, blocks and milliseconds are integers
  (\<open>int\<close>); days and hours may be fractional and are rationals (\<open>rat\<close>). Floating-point
  rounding, \<open>NaN\<close> and the infinities are outside the model.
\<close>

subsection \<open>Configuration constants\<close>

text \<open>
  The module \<open>./constants\<close> is imported by the bridge; its values are a parameter of every
  function that reads one of them.
\<close>

record constants =
  BTC_BLOCKTIME_SECS :: int
  INPUT_SIZE :: int
  OUTPUT_SIZE :: int
  SATOSHI_PER_BYTE_PAYMENT :: int

subsection \<open>Results of an operation\<close>

text \<open>
  \<open>Result<T>\<close> is \<open>Promise<T | Error>\<close>. An operation either resolves with a value
  (\<open>Inr\<close>), resolves with an \<open>Error\<close> object (\<open>Inl (ReturnedError msg)\<close>), or throws, which
  rejects the promise of an \<open>async\<close> method: a \<open>TypeError\<close> of the engine
  (\<open>Inl (ThrownTypeError msg)\<close>) or an \<open>Error\<close> raised by a library (\<open>Inl (ThrownError msg)\<close>).
\<close>

datatype failure = ReturnedError string | ThrownTypeError string | ThrownError string

text \<open>The messages of the two \<open>TypeError\<close>s the engine raises on an undefined operand.\<close>

definition assign_undefined :: string where
  "assign_undefined = ''Cannot convert undefined or null to object''"

definition read_undefined :: string where
  "read_undefined = ''Cannot read properties of undefined''"

text \<open>
  The relay, the UTXO indexer and the escrow signer are external. The settled promise of
  a request is an input of the model: resolved with the response data, or rejected with
  a message.
\<close>

datatype 'a reply = Resolved 'a | Rejected string

subsection \<open>Typed arrays and object identity\<close>

text \<open>
  A \<open>Uint8Array\<close> is an object: it has an identity (\<open>ref\<close>) and its bytes. The operators
  \<open>==\<close> and \<open>!=\<close> on two objects compare the identities, never the bytes.
\<close>

record Uint8Array =
  ref :: nat
  bytes :: "nat list"

definition loose_neq :: "Uint8Array \<Rightarrow> Uint8Array \<Rightarrow> bool" where
  "loose_neq a b = (ref a \<noteq> ref b)"

record IKeypair =
  address :: string
  secretKey :: Uint8Array
  publicKey :: Uint8Array
  version :: "nat option"

subsection \<open>Trade progress, fresh tests, responses\<close>

type_synonym date = int

record ITradeProgress =
  status :: "nat option"
  lastEvent :: date
  ourAddress :: string
  reasonForFailure :: "string option"

record IFreshTest =
  ft_publicKey :: string
  message :: string
  signature :: "string option"

subsection \<open>Scripts and transactions\<close>

text \<open>
  A script of the Bitcoin library is a list of chunks. A chunk holds an opcode number,
  \<open>undefined\<close> (\<open>None\<close>) when it was made from a name the opcode table does not have, and
  the bytes it pushes when it is a data push. The bridge gives \<open>add\<close> a string or a number.
\<close>

record Chunk =
  opcodenum :: "int option"
  buf :: "nat list option"

type_synonym Script = "Chunk list"

datatype ScriptArg = Str string | Num int

text \<open>
  The Bitcoin library is external. Its functions that the bridge depends on are
  parameters, collected in one record: the address of a private key (through its public
  key, and through \<open>toAddress\<close>), the table of opcode names (\<open>Opcode.map[name]\<close>,
  \<open>undefined\<close> for a string that is no opcode name), the rendering of a script as a string,
  and the script interpreter.
\<close>

type_synonym PrivateKey = string

record bitcore =
  Address_fromPrivateKey :: "PrivateKey \<Rightarrow> string"
  PrivateKey_toAddress :: "PrivateKey \<Rightarrow> string"
  Opcode_map :: "string \<Rightarrow> int option"
  Script_toString :: "Script \<Rightarrow> string"
  Interpreter_verify :: "Script \<Rightarrow> Script \<Rightarrow> bool"

text \<open>
  \<open>new Script(token)\<close> for a string parses it (\<open>Script.fromString\<close>). For a single token that
  is neither hexadecimal nor a number, as \<open>'OP_IF'\<close> is: the token is looked up in the
  opcode table; a missing name throws \<open>Error('Invalid script')\<close>, the three push-data
  opcodes (76, 77, 78) read the tokens that should follow and throw a \<open>TypeError\<close> on their
  absence, and any other opcode gives the script of that one chunk.
\<close>

definition Script_new :: "bitcore \<Rightarrow> string \<Rightarrow> failure + Script" where
  "Script_new lib token =
     (case Opcode_map lib token of
        None \<Rightarrow> Inl (ThrownError (''Invalid script: '' @ token))
      | Some n \<Rightarrow>
          if n = 76 \<or> n = 77 \<or> n = 78 then Inl (ThrownTypeError read_undefined)
          else Inr [\<lparr>opcodenum = Some n, buf = None\<rparr>])"

text \<open>
  \<open>script.add(x)\<close>: a string is taken as an opcode name (\<open>Opcode(x).toNumber()\<close>, hence
  \<open>undefined\<close> for a string that is not one), a number as an opcode number; either way one
  chunk without data is appended. Only a \<open>Buffer\<close> argument, which the bridge never gives,
  appends a data push.
\<close>

definition Script_add :: "bitcore \<Rightarrow> Script \<Rightarrow> ScriptArg \<Rightarrow> Script" where
  "Script_add lib s x =
     s @ [\<lparr>opcodenum = (case x of Str name \<Rightarrow> Opcode_map lib name | Num n \<Rightarrow> Some n),
           buf = None\<rparr>]"

record ITxStage1ScriptInput =
  theirAddress :: string
  ourReturnAddress :: string
  zenottasAddress :: string
  daysToLock :: rat
  startBlockHeight :: int

text \<open>
  A transaction as the bridge reads it: the script of an input or output may be missing
  (\<open>null\<close> or \<open>undefined\<close>).
\<close>

record TxInput =
  input_script :: "Script option"

record TxOutput =
  satoshis :: int
  output_script :: "Script option"

record Transaction =
  inputs :: "TxInput list"
  outputs :: "TxOutput list"

record IBtcExpectations =
  exp_ourAddress :: string
  exp_zenottasAddress :: string
  exp_amount :: int

datatype content = NoContent | TxContent Transaction

record IClientResponse =
  cr_status :: string
  reason :: string
  content :: content

section \<open>Pure functions of the Bitcoin bridge\<close>

text \<open>
  \<open>getLockTimeFromDays\<close>: \<open>Math.floor((days * 24 * 60 * 60) / BTC_BLOCKTIME_SECS) +
  startBlockHeight\<close>. The model agrees with the code where the block time is not zero
  (JavaScript divides by zero to an infinity, HOL to zero).
\<close>

definition getLockTimeFromDays :: "constants \<Rightarrow> rat \<Rightarrow> int \<Rightarrow> int" where
  "getLockTimeFromDays k days startHeight =
     \<lfloor>(days * 24 * 60 * 60) / of_int (BTC_BLOCKTIME_SECS k)\<rfloor> + startHeight"

definition calculateFee :: "constants \<Rightarrow> int \<Rightarrow> int \<Rightarrow> int \<Rightarrow> int \<Rightarrow> int option" where
  "calculateFee k satoshisPerByte inputCount satoshisToSend totalAmountAvailable =
     (let txSize = inputCount * INPUT_SIZE k + OUTPUT_SIZE k + 10 - inputCount;
          satoshiFee = satoshisPerByte * txSize
      in if totalAmountAvailable - satoshisToSend - satoshiFee < 0 then None
         else Some satoshiFee)"

definition constructTxStage1Script ::
    "constants \<Rightarrow> bitcore \<Rightarrow> ITxStage1ScriptInput \<Rightarrow> failure + Script" where
  "constructTxStage1Script k lib inp =
     (let locktime = getLockTimeFromDays k (daysToLock inp) (startBlockHeight inp)
      in case Script_new lib ''OP_IF'' of
           Inl e \<Rightarrow> Inl e
         | Inr script \<Rightarrow>
             Inr (foldl (Script_add lib) script
           [Str ''OP_0'',
            Str ''OP_2'',
            Str (theirAddress inp),
            Str (zenottasAddress inp),
            Str ''OP_2'',
            Str ''OP_CHECKMULTISIG'',
            Str ''OP_ELSE'',
            Num locktime,
            Str ''OP_CHECKLOCKTIMEVERIFY'',
            Str ''OP_DROP'',
            Str ''OP_DUP'',
            Str ''OP_HASH160'',
            Str (ourReturnAddress inp),
            Str ''OP_EQUALVERIFY'',
            Str ''OP_CHECKSIG'',
            Str ''OP_ENDIF'']))"

section \<open>Strings and bytes\<close>

text \<open>
  \<open>String.prototype.indexOf\<close>: the index of the first occurrence of \<open>sub\<close> in \<open>s\<close>, or
  \<open>-1\<close> when there is none. The empty string occurs at index 0.
\<close>

fun starts_with :: "string \<Rightarrow> string \<Rightarrow> bool" where
  "starts_with s [] = True"
| "starts_with [] (d # ds) = False"
| "starts_with (c # cs) (d # ds) = (c = d \<and> starts_with cs ds)"

fun indexOf_from :: "string \<Rightarrow> string \<Rightarrow> int \<Rightarrow> int" where
  "indexOf_from [] sub i = (if sub = [] then i else - 1)"
| "indexOf_from (c # cs) sub i =
     (if starts_with (c # cs) sub then i else indexOf_from cs sub (i + 1))"

definition indexOf :: "string \<Rightarrow> string \<Rightarrow> int" where
  "indexOf s sub = indexOf_from s sub 0"

text \<open>
  \<open>Buffer.from(s, 'hex')\<close> decodes pairs of hexadecimal digits and stops at the first pair
  that is not one; \<open>buf.toString('hex')\<close> writes two lower-case digits per byte.
\<close>

definition hexDigit :: "char \<Rightarrow> nat option" where
  "hexDigit c =
     (let n = (of_char c :: nat)
      in if 48 \<le> n \<and> n \<le> 57 then Some (n - 48)
         else if 97 \<le> n \<and> n \<le> 102 then Some (n - 87)
         else if 65 \<le> n \<and> n \<le> 70 then Some (n - 55)
         else None)"

fun Buffer_from_hex :: "string \<Rightarrow> nat list" where
  "Buffer_from_hex (a # b # rest) =
     (case (hexDigit a, hexDigit b) of
        (Some h, Some l) \<Rightarrow> (16 * h + l) # Buffer_from_hex rest
      | _ \<Rightarrow> [])"
| "Buffer_from_hex s = []"

definition hexChar :: "nat \<Rightarrow> char" where
  "hexChar d = (if d < 10 then char_of (48 + d) else char_of (87 + d))"

definition toString_hex :: "nat list \<Rightarrow> string" where
  "toString_hex bs = concat (map (\<lambda>b. [hexChar (b div 16), hexChar (b mod 16)]) bs)"

section \<open>The bridge and the runtime\<close>

text \<open>
  The instance state of \<open>HelixBridgeBTC\<close>, followed by the two pieces of the JavaScript
  runtime the bridge reads: the clock (\<open>clock s i\<close> is the time the \<open>i\<close>-th evaluation of
  \<open>new Date()\<close> yields, in milliseconds) and the allocator of object identities.

  \<open>progress\<close> is a plain object used as a dictionary from counterparty address to the
  trade record; a key that was never assigned reads as \<open>undefined\<close> (\<open>None\<close>). Addresses
  are hexadecimal strings, so no key names a member of \<open>Object.prototype\<close>.
\<close>

record bridge =
  chain :: string
  mempoolKey :: "string option"
  freshTestResponseTimeout :: rat
  progress :: "string \<rightharpoonup> ITradeProgress"
  bitcoinEndpoint :: string
  netenv :: string
  txStage2 :: "Transaction option"
  clock :: "nat \<Rightarrow> date"
  dateCalls :: nat
  nextRef :: nat

text \<open>
  The constructor: \<open>freshTestResponseTimeout\<close> defaults to 12 hours when the argument is
  omitted.
\<close>

definition HelixBridgeBTC_new ::
    "string \<Rightarrow> string \<Rightarrow> rat option \<Rightarrow> (nat \<Rightarrow> date) \<Rightarrow> nat \<Rightarrow> bridge" where
  "HelixBridgeBTC_new endpoint env timeout clk firstRef =
     \<lparr>chain = ''BTC'',
      mempoolKey = None,
      freshTestResponseTimeout = (case timeout of None \<Rightarrow> 12 | Some h \<Rightarrow> h),
      progress = Map.empty,
      bitcoinEndpoint = endpoint,
      netenv = env,
      txStage2 = None,
      clock = clk,
      dateCalls = 0,
      nextRef = firstRef\<rparr>"

definition new_Date :: "bridge \<Rightarrow> date \<times> bridge" where
  "new_Date s = (clock s (dateCalls s), s\<lparr>dateCalls := Suc (dateCalls s)\<rparr>)"

definition Uint8Array_from :: "nat list \<Rightarrow> bridge \<Rightarrow> Uint8Array \<times> bridge" where
  "Uint8Array_from bs s = (\<lparr>ref = nextRef s, bytes = bs\<rparr>, s\<lparr>nextRef := Suc (nextRef s)\<rparr>)"

section \<open>The generic trade base\<close>

text \<open>
  \<open>sign\<close> and \<open>verify\<close> wrap the signature primitives, which are external: \<open>createSignature\<close>
  and \<open>nacl.sign.detached.verify\<close> are parameters. The latter throws on a signature or a
  public key of the wrong size, hence its result type.
\<close>

definition sign :: "(nat list \<Rightarrow> nat list \<Rightarrow> nat list) \<Rightarrow> Uint8Array \<Rightarrow> string \<Rightarrow> string" where
  "sign createSignature sk msg = toString_hex (createSignature (bytes sk) (Buffer_from_hex msg))"

definition verify ::
    "(nat list \<Rightarrow> nat list \<Rightarrow> nat list \<Rightarrow> failure + bool) \<Rightarrow> string \<Rightarrow> string \<Rightarrow> string
      \<Rightarrow> failure + bool" where
  "verify nacl_verify sg msg pk =
     (let sigBuffer = Buffer_from_hex sg;
          messageBuffer = Buffer_from_hex msg;
          pubKeyBuffer = Buffer_from_hex pk
      in nacl_verify messageBuffer sigBuffer pubKeyBuffer)"

definition formatMillisecondsToHours :: "int \<Rightarrow> rat" where
  "formatMillisecondsToHours ms = of_int ms / 1000 / 60 / 60"

text \<open>
  \<open>markedErrorInProgress\<close>: \<open>this.progress[theirAddress] = Object.assign(this.progress[theirAddress],
  {status: null, lastEvent: new Date(), reasonForFailure: reason})\<close>, then \<open>return new
  Error(reason)\<close>. The object literal is evaluated first, so the clock is read; \<open>Object.assign\<close>
  throws a \<open>TypeError\<close> on an undefined target, before anything is stored. Every call site
  is \<open>return this.markedErrorInProgress(...)\<close>, so the value is given as the result of the
  calling operation.
\<close>

definition markedErrorInProgress ::
    "string \<Rightarrow> string \<Rightarrow> bridge \<Rightarrow> (failure + 'a) \<times> bridge" where
  "markedErrorInProgress their why s =
     (let (now, s1) = new_Date s
      in case progress s1 their of
           None \<Rightarrow> (Inl (ThrownTypeError assign_undefined), s1)
         | Some p \<Rightarrow>
             (Inl (ReturnedError why),
              s1\<lparr>progress := (progress s1)(their \<mapsto>
                    p\<lparr>status := None, lastEvent := now, reasonForFailure := Some why\<rparr>)\<rparr>))"

text \<open>
  The statement every successful step shares: \<open>this.progress[theirAddress] =
  Object.assign(this.progress[theirAddress], {status: n, lastEvent: new Date()})\<close>.
\<close>

definition assignProgress :: "string \<Rightarrow> nat \<Rightarrow> bridge \<Rightarrow> (failure + unit) \<times> bridge" where
  "assignProgress their n s =
     (let (now, s1) = new_Date s
      in case progress s1 their of
           None \<Rightarrow> (Inl (ThrownTypeError assign_undefined), s1)
         | Some p \<Rightarrow>
             (Inr (),
              s1\<lparr>progress := (progress s1)(their \<mapsto> p\<lparr>status := Some n, lastEvent := now\<rparr>)\<rparr>))"

definition success :: "string \<Rightarrow> content \<Rightarrow> IClientResponse" where
  "success why c = \<lparr>cr_status = ''success'', reason = why, content = c\<rparr>"

text \<open>
  \<open>getIntercomData\<close> posts the get body to the relay and returns the response data, or
  the \<open>Error\<close> made from a rejection.
\<close>

definition getIntercomData :: "'d reply \<Rightarrow> failure + 'd" where
  "getIntercomData r = (case r of Resolved d \<Rightarrow> Inr d | Rejected m \<Rightarrow> Inl (ReturnedError m))"

definition getMempoolSignature ::
    "(string \<rightharpoonup> 'v) reply \<Rightarrow> string \<Rightarrow> string \<Rightarrow> IKeypair \<Rightarrow> bridge
      \<Rightarrow> (failure + 'v) \<times> bridge" where
  "getMempoolSignature got zenottas ourAddr ourKeypair s =
     (case getIntercomData got of
        Inl e \<Rightarrow> (Inl e, s)
      | Inr intercomData \<Rightarrow>
          (case intercomData zenottas of
             None \<Rightarrow>
               markedErrorInProgress zenottas
                 ''No signature found from Zenotta third transaction stage'' s
           | Some v \<Rightarrow> (Inr v, s)))"

definition sendFreshTest ::
    "unit reply \<Rightarrow> string \<Rightarrow> IKeypair \<Rightarrow> bridge \<Rightarrow> (failure + IClientResponse) \<times> bridge" where
  "sendFreshTest posted their ourKeypair s =
     (case posted of
        Resolved u \<Rightarrow>
          (let (now, s1) = new_Date s
           in (Inr (success ''Fresh test sent'' NoContent),
               s1\<lparr>progress := (progress s1)(their \<mapsto>
                     \<lparr>status = Some 0,
                      lastEvent = now,
                      ourAddress = address ourKeypair,
                      reasonForFailure = None\<rparr>)\<rparr>))
      | Rejected m \<Rightarrow> (Inl (ReturnedError m), s))"

text \<open>
  \<open>signFreshTest\<close>. The guard is \<open>Uint8Array.from(Buffer.from(ourAddress, 'hex')) !=
  ourKeypair.publicKey\<close>: a fresh typed array compared with \<open>!=\<close>. A rejection of the
  final post, and an exception inside its \<open>then\<close>, both reach the \<open>catch\<close>, which marks
  the error.
\<close>

definition signFreshTest ::
    "(nat list \<Rightarrow> nat list \<Rightarrow> nat list) \<Rightarrow> (string \<rightharpoonup> IFreshTest) reply \<Rightarrow> unit reply
      \<Rightarrow> IKeypair \<Rightarrow> string \<Rightarrow> bridge \<Rightarrow> (failure + IClientResponse) \<times> bridge" where
  "signFreshTest createSignature got posted ourKeypair their s =
     (case progress s their of
        None \<Rightarrow> (Inl (ThrownTypeError read_undefined), s)
      | Some p \<Rightarrow>
          (let ourAddr = ourAddress p;
               (decoded, s1) = Uint8Array_from (Buffer_from_hex ourAddr) s
           in if loose_neq decoded (publicKey ourKeypair)
              then markedErrorInProgress their ''Our address does not match our public key'' s1
              else
                (case getIntercomData got of
                   Inl e \<Rightarrow> (Inl e, s1)
                 | Inr intercomData \<Rightarrow>
                     (case intercomData their of
                        None \<Rightarrow> (Inl (ReturnedError ''Data not found for trade partner!''), s1)
                      | Some freshTest \<Rightarrow>
                          (let sg = sign createSignature (secretKey ourKeypair) (message freshTest);
                               signed = freshTest\<lparr>signature := Some sg\<rparr>
                           in case posted of
                                Resolved u \<Rightarrow>
                                  (case assignProgress their 1 s1 of
                                     (Inr u', s2) \<Rightarrow> (Inr (success ''Fresh test sent'' NoContent), s2)
                                   | (Inl (ThrownTypeError m), s2) \<Rightarrow> markedErrorInProgress their m s2
                                   | (Inl (ThrownError m), s2) \<Rightarrow> markedErrorInProgress their m s2
                                   | (Inl (ReturnedError m), s2) \<Rightarrow> markedErrorInProgress their m s2)
                              | Rejected m \<Rightarrow> markedErrorInProgress their m s1)))))"

text \<open>
  \<open>getFreshTestResponse\<close>. A signature that is \<open>null\<close> or the empty string is falsy.
\<close>

definition getFreshTestResponse ::
    "(nat list \<Rightarrow> nat list \<Rightarrow> nat list \<Rightarrow> failure + bool) \<Rightarrow> (string \<rightharpoonup> IFreshTest) reply
      \<Rightarrow> string \<Rightarrow> IKeypair \<Rightarrow> string \<Rightarrow> bridge \<Rightarrow> (failure + IClientResponse) \<times> bridge" where
  "getFreshTestResponse nacl_verify got ourAddr ourKeypair their s =
     (case getIntercomData got of
        Inl e \<Rightarrow> (Inl e, s)
      | Inr intercomData \<Rightarrow>
          (case intercomData their of
             None \<Rightarrow> (Inl (ReturnedError ''Data not found for trade partner!''), s)
           | Some freshTest \<Rightarrow>
               (let (now, s1) = new_Date s
                in case progress s1 their of
                     None \<Rightarrow> (Inl (ThrownTypeError read_undefined), s1)
                   | Some p \<Rightarrow>
                       (let timeDiff = formatMillisecondsToHours (now - lastEvent p)
                        in if timeDiff > freshTestResponseTimeout s1
                           then markedErrorInProgress their ''Fresh test response timed out'' s1
                           else
                             (case signature freshTest of
                                None \<Rightarrow>
                                  markedErrorInProgress their ''Fresh test signature not found'' s1
                              | Some sg \<Rightarrow>
                                  if sg = []
                                  then markedErrorInProgress their
                                         ''Fresh test signature not found'' s1
                                  else
                                    (case verify nacl_verify sg (message freshTest)
                                            (ft_publicKey freshTest) of
                                       Inl e \<Rightarrow> (Inl e, s1)
                                     | Inr True \<Rightarrow>
                                         (case assignProgress their 2 s1 of
                                            (Inl e, s2) \<Rightarrow> (Inl e, s2)
                                          | (Inr u, s2) \<Rightarrow>
                                              (Inr (success
                                                 ''Fresh test signed by other party successfully''
                                                 NoContent), s2))
                                     | Inr False \<Rightarrow>
                                         markedErrorInProgress their
                                           ''Signature verification failed'' s1))))))"

section \<open>The Bitcoin bridge\<close>

text \<open>
  The response of the UTXO indexer (\<open>response.data.data\<close>) and what is made of it. The
  indexer gives the value of an output in coins, as a decimal string.
\<close>

record UtxoEntry =
  utxo_value :: string
  script_hex :: string
  txid :: string
  output_no :: nat

record UtxoData =
  data_address :: string
  txs :: "UtxoEntry list"

record UnspentOutput =
  utxo_address :: string
  utxo_satoshis :: int
  utxo_script :: string
  txId :: string
  outputIndex :: nat

record IFetchBtcUtxoResponse =
  fetched_inputs :: "UnspentOutput list"
  totalAmountAvailable :: int

text \<open>
  A transaction under construction is the record of the arguments given to the library's
  builder: \<open>from\<close>, \<open>to\<close>, \<open>fee\<close>, \<open>change\<close>, \<open>sign\<close>, then \<open>outputs[0].setScript\<close> (stage 1)
  or \<open>applySignature\<close> (stage 2 partial).
\<close>

record BuiltTransaction =
  tx_from :: "UnspentOutput list"
  tx_to :: "string \<times> int"
  tx_fee :: int
  tx_change :: string
  tx_sign :: PrivateKey
  tx_script0 :: "Script option"
  tx_applied :: "string option"

text \<open>
  \<open>fetchInputsFromUtxo\<close>. The amount of an input is \<open>Math.floor(Number(element.value) *
  100000000)\<close>, a product of doubles: it is not the floor of the exact product (0.57 coins
  give 56999999 satoshis). The conversion is the parameter \<open>toSatoshis\<close>.
\<close>

definition fetchInputsFromUtxo ::
    "(string \<Rightarrow> int) \<Rightarrow> UtxoData reply \<Rightarrow> failure + IFetchBtcUtxoResponse" where
  "fetchInputsFromUtxo toSatoshis r =
     (case r of
        Rejected m \<Rightarrow> Inl (ReturnedError m)
      | Resolved d \<Rightarrow>
          Inr (foldl
                 (\<lambda>acc element.
                    (let utxo = \<lparr>utxo_address = data_address d,
                                 utxo_satoshis = toSatoshis (utxo_value element),
                                 utxo_script = script_hex element,
                                 txId = txid element,
                                 outputIndex = output_no element\<rparr>
                     in \<lparr>fetched_inputs = fetched_inputs acc @ [utxo],
                         totalAmountAvailable = totalAmountAvailable acc + utxo_satoshis utxo\<rparr>))
                 \<lparr>fetched_inputs = [], totalAmountAvailable = 0\<rparr>
                 (txs d)))"

text \<open>
  \<open>!fee\<close> on a \<open>number | null\<close>: true for \<open>null\<close> and for \<open>0\<close>.
\<close>

definition falsy :: "int option \<Rightarrow> bool" where
  "falsy v = (case v of None \<Rightarrow> True | Some n \<Rightarrow> n = 0)"

definition constructTransaction ::
    "constants \<Rightarrow> bitcore \<Rightarrow> (string \<Rightarrow> int) \<Rightarrow> UtxoData reply \<Rightarrow> PrivateKey \<Rightarrow> string \<Rightarrow> int
      \<Rightarrow> failure + BuiltTransaction" where
  "constructTransaction k lib toSatoshis utxoReply ourPrivateKey their amount =
     (let ourAddr = Address_fromPrivateKey lib ourPrivateKey
      in case fetchInputsFromUtxo toSatoshis utxoReply of
           Inl e \<Rightarrow> Inl e
         | Inr utxoFetchResult \<Rightarrow>
             if fetched_inputs utxoFetchResult = []
             then Inl (ReturnedError ''No UTXO entries found'')
             else
               (let ins = fetched_inputs utxoFetchResult;
                    fee = calculateFee k (SATOSHI_PER_BYTE_PAYMENT k) (int (length ins)) amount
                            (totalAmountAvailable utxoFetchResult)
                in if falsy fee
                   then Inl (ReturnedError ''Not enough funds'')
                   else Inr \<lparr>tx_from = ins,
                             tx_to = (their, amount),
                             tx_fee = (if \<not> falsy fee then the fee * 20 else 0),
                             tx_change = ourAddr,
                             tx_sign = ourPrivateKey,
                             tx_script0 = None,
                             tx_applied = None\<rparr>))"



text \<open>
  \<open>expectationsAreMetBtcTx\<close>. \<open>o.script.toString()\<close> throws on an output without a script.
\<close>

definition expectationsAreMetBtcTx ::
    "bitcore \<Rightarrow> Transaction \<Rightarrow> IBtcExpectations \<Rightarrow> failure + bool" where
  "expectationsAreMetBtcTx lib transaction e =
     (let outs = outputs transaction;
          amount = foldl (\<lambda>acc current. acc + satoshis current) 0 outs
      in if list_ex (\<lambda>out. output_script out = None) outs
         then Inl (ThrownTypeError read_undefined)
         else
           (let ourAddressFilter =
                  filter (\<lambda>out. indexOf (Script_toString lib (the (output_script out)))
                                 (exp_ourAddress e) \<noteq> - 1) outs;
                zenottasAddressFilter =
                  filter (\<lambda>out. indexOf (Script_toString lib (the (output_script out)))
                                 (exp_zenottasAddress e) \<noteq> - 1) outs
            in if amount \<noteq> exp_amount e
                  \<or> length ourAddressFilter \<noteq> 1
                  \<or> length zenottasAddressFilter \<noteq> 1
               then Inr False
               else Inr True))"

text \<open>
  \<open>sendTxStage1\<close> and \<open>sendTxStage2Partial\<close>: the status is assigned inside the \<open>then\<close> of
  the post; an exception there reaches the \<open>catch\<close>, which returns \<open>new Error(error.message)\<close>.
\<close>

definition sendTxStage1 ::
    "unit reply \<Rightarrow> string \<Rightarrow> IKeypair \<Rightarrow> BuiltTransaction \<Rightarrow> bridge
      \<Rightarrow> (failure + IClientResponse) \<times> bridge" where
  "sendTxStage1 posted their ourKeypair transaction s =
     (case posted of
        Resolved u \<Rightarrow>
          (case assignProgress their 3 s of
             (Inr u', s1) \<Rightarrow> (Inr (success ''Sent first transaction stage'' NoContent), s1)
           | (Inl (ThrownTypeError m), s1) \<Rightarrow> (Inl (ReturnedError m), s1)
           | (Inl (ThrownError m), s1) \<Rightarrow> (Inl (ReturnedError m), s1)
           | (Inl (ReturnedError m), s1) \<Rightarrow> (Inl (ReturnedError m), s1))
      | Rejected m \<Rightarrow> (Inl (ReturnedError m), s))"

definition getTxStage1 ::
    "bitcore \<Rightarrow> (string \<rightharpoonup> Transaction) reply \<Rightarrow> IKeypair \<Rightarrow> string \<Rightarrow> IBtcExpectations
      \<Rightarrow> bridge \<Rightarrow> (failure + IClientResponse) \<times> bridge" where
  "getTxStage1 lib got ourKeypair their expectations s =
     (case getIntercomData got of
        Inl e \<Rightarrow> (Inl e, s)
      | Inr intercomData \<Rightarrow>
          (case intercomData their of
             None \<Rightarrow> markedErrorInProgress their ''No data for counter party found'' s
           | Some transaction \<Rightarrow>
               (case (inputs transaction, outputs transaction) of
                  (i0 # irest, o0 # orest) \<Rightarrow>
                    (case (input_script i0, output_script o0) of
                       (Some inputScript, Some outputScript) \<Rightarrow>
                         if \<not> Interpreter_verify lib inputScript outputScript
                         then markedErrorInProgress their ''Invalid transaction TxA'' s
                         else
                           (case expectationsAreMetBtcTx lib transaction expectations of
                              Inl e \<Rightarrow> (Inl e, s)
                            | Inr False \<Rightarrow>
                                markedErrorInProgress their
                                  (''Expectations not met for '' @ their) s
                            | Inr True \<Rightarrow>
                                (case assignProgress their 4 s of
                                   (Inl e, s1) \<Rightarrow> (Inl e, s1)
                                 | (Inr u, s1) \<Rightarrow>
                                     (Inr (success ''Received first transaction stage''
                                             (TxContent transaction)), s1)))
                     | _ \<Rightarrow>
                         markedErrorInProgress their
                           (''No input or output script found for '' @ their) s)
                | _ \<Rightarrow> (Inl (ThrownTypeError read_undefined), s))))"

definition sendTxStage2Partial ::
    "unit reply \<Rightarrow> string \<Rightarrow> IKeypair \<Rightarrow> BuiltTransaction \<Rightarrow> bridge
      \<Rightarrow> (failure + IClientResponse) \<times> bridge" where
  "sendTxStage2Partial posted their ourKeypair txStage2Partial s =
     (case posted of
        Resolved u \<Rightarrow>
          (case assignProgress their 5 s of
             (Inr u', s1) \<Rightarrow> (Inr (success ''Sent first transaction stage'' NoContent), s1)
           | (Inl (ThrownTypeError m), s1) \<Rightarrow> (Inl (ReturnedError m), s1)
           | (Inl (ThrownError m), s1) \<Rightarrow> (Inl (ReturnedError m), s1)
           | (Inl (ReturnedError m), s1) \<Rightarrow> (Inl (ReturnedError m), s1))
      | Rejected m \<Rightarrow> (Inl (ReturnedError m), s))"

definition getTxStage2Partial ::
    "bitcore \<Rightarrow> (string \<rightharpoonup> Transaction) reply \<Rightarrow> string \<Rightarrow> IKeypair \<Rightarrow> string
      \<Rightarrow> bridge \<Rightarrow> (failure + IClientResponse) \<times> bridge" where
  "getTxStage2Partial lib got their ourKeypair ourSig s =
     (case getIntercomData got of
        Inl e \<Rightarrow> (Inl e, s)
      | Inr intercomData \<Rightarrow>
          (case intercomData their of
             None \<Rightarrow> markedErrorInProgress their ''No data for counter party found'' s
           | Some transaction \<Rightarrow>
               (case inputs transaction of
                  [] \<Rightarrow> (Inl (ThrownTypeError read_undefined), s)
                | i0 # irest \<Rightarrow>
                    (case input_script i0 of
                       None \<Rightarrow> (Inl (ThrownTypeError read_undefined), s)
                     | Some inputScript \<Rightarrow>
                         if indexOf (Script_toString lib inputScript) ourSig = - 1
                         then markedErrorInProgress their ''Invalid transaction TxB partial'' s
                         else
                           (case assignProgress their 6 s of
                              (Inl e, s1) \<Rightarrow> (Inl e, s1)
                            | (Inr u, s1) \<Rightarrow>
                                (Inr (success ''Received second transaction stage'' NoContent),
                                 s1\<lparr>txStage2 := Some transaction\<rparr>))))))"

section \<open>The steps of the trade as one transition function\<close>

text \<open>
  The seven operations that write a stage number on the progress record, each with its
  arguments, the counterparty it concerns and the stage it writes.
\<close>

datatype call =
    SendFreshTest "unit reply" string IKeypair
  | SignFreshTest "nat list \<Rightarrow> nat list \<Rightarrow> nat list" "(string \<rightharpoonup> IFreshTest) reply"
      "unit reply" IKeypair string
  | GetFreshTestResponse "nat list \<Rightarrow> nat list \<Rightarrow> nat list \<Rightarrow> failure + bool"
      "(string \<rightharpoonup> IFreshTest) reply" string IKeypair string
  | SendTxStage1 "unit reply" string IKeypair BuiltTransaction
  | GetTxStage1 bitcore "(string \<rightharpoonup> Transaction) reply" IKeypair string IBtcExpectations
  | SendTxStage2Partial "unit reply" string IKeypair BuiltTransaction
  | GetTxStage2Partial bitcore "(string \<rightharpoonup> Transaction) reply" string IKeypair string

fun exec :: "call \<Rightarrow> bridge \<Rightarrow> (failure + IClientResponse) \<times> bridge" where
  "exec (SendFreshTest posted their kp) s = sendFreshTest posted their kp s"
| "exec (SignFreshTest cs got posted kp their) s = signFreshTest cs got posted kp their s"
| "exec (GetFreshTestResponse nv got ourAddr kp their) s =
     getFreshTestResponse nv got ourAddr kp their s"
| "exec (SendTxStage1 posted their kp tx) s = sendTxStage1 posted their kp tx s"
| "exec (GetTxStage1 lib got kp their e) s = getTxStage1 lib got kp their e s"
| "exec (SendTxStage2Partial posted their kp tx) s = sendTxStage2Partial posted their kp tx s"
| "exec (GetTxStage2Partial lib got their kp ourSig) s =
     getTxStage2Partial lib got their kp ourSig s"

fun counterparty :: "call \<Rightarrow> string" where
  "counterparty (SendFreshTest posted their kp) = their"
| "counterparty (SignFreshTest cs got posted kp their) = their"
| "counterparty (GetFreshTestResponse nv got ourAddr kp their) = their"
| "counterparty (SendTxStage1 posted their kp tx) = their"
| "counterparty (GetTxStage1 lib got kp their e) = their"
| "counterparty (SendTxStage2Partial posted their kp tx) = their"
| "counterparty (GetTxStage2Partial lib got their kp ourSig) = their"

fun stage :: "call \<Rightarrow> nat" where
  "stage (SendFreshTest posted their kp) = 0"
| "stage (SignFreshTest cs got posted kp their) = 1"
| "stage (GetFreshTestResponse nv got ourAddr kp their) = 2"
| "stage (SendTxStage1 posted their kp tx) = 3"
| "stage (GetTxStage1 lib got kp their e) = 4"
| "stage (SendTxStage2Partial posted their kp tx) = 5"
| "stage (GetTxStage2Partial lib got their kp ourSig) = 6"

definition reports_success :: "failure + IClientResponse \<Rightarrow> bool" where
  "reports_success r = (case r of Inl e \<Rightarrow> False | Inr resp \<Rightarrow> cr_status resp = ''success'')"

section \<open>The mailbox request bodies\<close>

text \<open>
  Modelled from the spec: the module \<open>utils/intercomUtils\<close> (\<open>generateIntercomGetBody\<close>,
  \<open>generateIntercomSetBody\<close>, \<open>generateIntercomDelBody\<close>) is not among the sources; only its
  tests are. The spec: \<open>buildGet(ownAddress, keypair)\<close> has \<open>targetKey = ownAddress\<close> and
  \<open>signature = Sign(secretKey, ownAddress)\<close>; \<open>buildSet(targetAddress, ownAddress, keypair,
  value)\<close> follows the same signature rule, with \<open>fieldKey = ownAddress\<close> and the value
  attached; \<open>buildDelete(ownAddress, counterpartyFieldAddress, keypair)\<close> removes an entry
  posted earlier. The envelope is \<open>{targetKey, fieldKey, requesterPublicKey,
  requesterSignature, value}\<close>. \<open>Sign\<close> is the signature primitive, a parameter.
\<close>

record 'v IntercomBody =
  body_key :: string
  body_field :: "string option"
  body_publicKey :: string
  body_signature :: string
  body_value :: "'v option"

definition generateIntercomGetBody ::
    "(nat list \<Rightarrow> string \<Rightarrow> string) \<Rightarrow> string \<Rightarrow> IKeypair \<Rightarrow> 'v IntercomBody" where
  "generateIntercomGetBody Sign ownAddress keypair =
     \<lparr>body_key = ownAddress,
      body_field = None,
      body_publicKey = toString_hex (bytes (publicKey keypair)),
      body_signature = Sign (bytes (secretKey keypair)) ownAddress,
      body_value = None\<rparr>"

definition generateIntercomSetBody ::
    "(nat list \<Rightarrow> string \<Rightarrow> string) \<Rightarrow> string \<Rightarrow> string \<Rightarrow> IKeypair \<Rightarrow> 'v
      \<Rightarrow> 'v IntercomBody" where
  "generateIntercomSetBody Sign targetAddress ownAddress keypair v =
     \<lparr>body_key = targetAddress,
      body_field = Some ownAddress,
      body_publicKey = toString_hex (bytes (publicKey keypair)),
      body_signature = Sign (bytes (secretKey keypair)) ownAddress,
      body_value = Some v\<rparr>"

definition generateIntercomDelBody ::
    "(nat list \<Rightarrow> string \<Rightarrow> string) \<Rightarrow> string \<Rightarrow> string \<Rightarrow> IKeypair \<Rightarrow> 'v IntercomBody" where
  "generateIntercomDelBody Sign ownAddress fieldAddress keypair =
     \<lparr>body_key = ownAddress,
      body_field = Some fieldAddress,
      body_publicKey = toString_hex (bytes (publicKey keypair)),
      body_signature = Sign (bytes (secretKey keypair)) ownAddress,
      body_value = None\<rparr>"

section \<open>Example inputs\<close>

text \<open>
  Concrete values at which the theorems below are instantiated: a keypair whose public
  key is the bytes \<open>23 04\<close>, a clock that advances 13 hours between two readings, a bridge
  built with the default timeout, the same bridge after a fresh test was sent to the
  counterparty \<open>b0b0\<close>, and a bridge whose record for \<open>b0b0\<close> is at stage 5.
\<close>

definition usual_rate :: constants where
  "usual_rate = \<lparr>BTC_BLOCKTIME_SECS = 600, INPUT_SIZE = 180, OUTPUT_SIZE = 34,
                 SATOSHI_PER_BYTE_PAYMENT = 20\<rparr>"

definition free_rate :: constants where
  "free_rate = \<lparr>BTC_BLOCKTIME_SECS = 600, INPUT_SIZE = 180, OUTPUT_SIZE = 34,
                SATOSHI_PER_BYTE_PAYMENT = 0\<rparr>"

definition alice :: IKeypair where
  "alice = \<lparr>address = ''2304'',
            secretKey = \<lparr>ref = 0, bytes = [233, 235, 35, 4]\<rparr>,
            publicKey = \<lparr>ref = 1, bytes = [35, 4]\<rparr>,
            version = None\<rparr>"

definition every_13_hours :: "nat \<Rightarrow> date" where
  "every_13_hours i = int i * 46800000"

definition fresh_bridge :: bridge where
  "fresh_bridge =
     HelixBridgeBTC_new ''https://chain.example'' ''BTCTEST'' None every_13_hours 2"

definition after_send :: bridge where
  "after_send = snd (sendFreshTest (Resolved ()) ''b0b0'' alice fresh_bridge)"

definition at_stage5 :: bridge where
  "at_stage5 = fresh_bridge\<lparr>progress :=
       [''b0b0'' \<mapsto> \<lparr>status = Some 5, lastEvent = 0, ourAddress = ''2304'',
                        reasonForFailure = None\<rparr>]\<rparr>"

definition signed_test :: IFreshTest where
  "signed_test = \<lparr>ft_publicKey = ''b0b0'', message = ''abcd'', signature = Some ''ff00''\<rparr>"

definition accept_all :: "nat list \<Rightarrow> nat list \<Rightarrow> nat list \<Rightarrow> failure + bool" where
  "accept_all m sg pk = Inr True"

definition some_tx :: BuiltTransaction where
  "some_tx = \<lparr>tx_from = [], tx_to = (''b0b0'', 500), tx_fee = 0, tx_change = ''2304'',
              tx_sign = ''key'', tx_script0 = None, tx_applied = None\<rparr>"

definition one_utxo :: UtxoData where
  "one_utxo = \<lparr>data_address = ''2304'',
               txs = [\<lparr>utxo_value = ''0.00001'', script_hex = ''76a9'', txid = ''beef'',
                       output_no = 0\<rparr>]\<rparr>"


text \<open>The satoshis of the two values above: 1000 and 100000.\<close>

definition priced :: "string \<Rightarrow> int" where
  "priced v = (if v = ''0.001'' then 100000 else 1000)"

text \<open>
  The entries of the opcode table for the twelve names the bridge writes, with Bitcoin's
  opcode numbers; no other string, and so no hexadecimal address, is in this table.
\<close>

definition bridge_opcodes :: "string \<Rightarrow> int option" where
  "bridge_opcodes =
     map_of [(''OP_IF'', 99), (''OP_0'', 0), (''OP_2'', 82), (''OP_CHECKMULTISIG'', 174),
             (''OP_ELSE'', 103), (''OP_CHECKLOCKTIMEVERIFY'', 177), (''OP_DROP'', 117),
             (''OP_DUP'', 118), (''OP_HASH160'', 169), (''OP_EQUALVERIFY'', 136),
             (''OP_CHECKSIG'', 172), (''OP_ENDIF'', 104)]"

text \<open>A rendering that writes the pushed bytes of a chunk in hexadecimal.\<close>

definition render :: "Script \<Rightarrow> string" where
  "render sc =
     concat (map (\<lambda>c. case buf c of None \<Rightarrow> ''op '' | Some b \<Rightarrow> toString_hex b @ '' '') sc)"

definition plain_lib :: bitcore where
  "plain_lib = \<lparr>Address_fromPrivateKey = (\<lambda>k. ''2304''),
                PrivateKey_toAddress = (\<lambda>k. ''2304''),
                Opcode_map = bridge_opcodes,
                Script_toString = render,
                Interpreter_verify = (\<lambda>a b. True)\<rparr>"

definition paid_tx :: Transaction where
  "paid_tx =
     \<lparr>inputs = [\<lparr>input_script = Some [\<lparr>opcodenum = Some 0, buf = None\<rparr>]\<rparr>],
      outputs = [\<lparr>satoshis = 400,
                  output_script = Some [\<lparr>opcodenum = Some 2, buf = Some [35, 4]\<rparr>]\<rparr>,
                 \<lparr>satoshis = 100,
                  output_script = Some [\<lparr>opcodenum = Some 2, buf = Some [229, 192]\<rparr>]\<rparr>]\<rparr>"

text \<open>The same transaction with a third output that carries no script.\<close>

definition unscripted_tx :: Transaction where
  "unscripted_tx =
     paid_tx\<lparr>outputs := outputs paid_tx @ [\<lparr>satoshis = 0, output_script = None\<rparr>]\<rparr>"

definition escrow_input :: ITxStage1ScriptInput where
  "escrow_input = \<lparr>theirAddress = ''b0b0'', ourReturnAddress = ''2304'',
                   zenottasAddress = ''e5c0'', daysToLock = 5 / 2,
                   startBlockHeight = 700000\<rparr>"

definition other_input :: ITxStage1ScriptInput where
  "other_input = \<lparr>theirAddress = ''c1c1'', ourReturnAddress = ''d2d2'',
                  zenottasAddress = ''f3f3'', daysToLock = 5 / 2,
                  startBlockHeight = 700000\<rparr>"

definition op_chunk :: "int option \<Rightarrow> Chunk" where
  "op_chunk n = \<lparr>opcodenum = n, buf = None\<rparr>"

definition paid_expectations :: IBtcExpectations where
  "paid_expectations =
     \<lparr>exp_ourAddress = ''2304'', exp_zenottasAddress = ''e5c0'', exp_amount = 500\<rparr>"

text \<open>
  A successful step leaves a record at stage \<open>n\<close> whose \<open>lastEvent\<close> is the last clock
  reading the step made.
\<close>

definition wrote :: "nat \<Rightarrow> string \<Rightarrow> bridge \<Rightarrow> bridge \<Rightarrow> bool" where
  "wrote n a s s' =
     (\<exists>p'. progress s' a = Some p' \<and> status p' = Some n
           \<and> lastEvent p' = clock s (dateCalls s' - 1) \<and> dateCalls s < dateCalls s')"

section \<open>Auxiliary facts\<close>

subsection \<open>Substring search\<close>

lemma starts_with_iff: "starts_with s sub = (\<exists>q. s = sub @ q)"
  by (induction s sub rule: starts_with.induct) auto

lemma indexOf_from_found:
  "0 \<le> i \<Longrightarrow> (indexOf_from s sub i \<noteq> - 1) = (\<exists>p q. s = p @ sub @ q)"
proof (induction s sub i rule: indexOf_from.induct)
  case (1 sub i)
  then show ?case by auto
next
  case (2 c cs sub i)
  show ?case
  proof (cases "starts_with (c # cs) sub")
    case True
    then obtain q where "c # cs = sub @ q" by (auto simp: starts_with_iff)
    then have "c # cs = [] @ sub @ q" by simp
    then have "\<exists>p q. c # cs = p @ sub @ q" by blast
    with True 2 show ?thesis by auto
  next
    case False
    have ih: "(indexOf_from cs sub (i + 1) \<noteq> - 1) = (\<exists>p q. cs = p @ sub @ q)"
      using 2 False by simp
    have "(\<exists>p q. c # cs = p @ sub @ q) = (\<exists>p q. cs = p @ sub @ q)"
    proof
      assume "\<exists>p q. c # cs = p @ sub @ q"
      then obtain p q where pq: "c # cs = p @ sub @ q" by blast
      show "\<exists>p q. cs = p @ sub @ q"
      proof (cases p)
        case Nil
        with pq False show ?thesis by (auto simp: starts_with_iff)
      next
        case (Cons a p')
        with pq have "cs = p' @ sub @ q" by simp
        then show ?thesis by blast
      qed
    next
      assume "\<exists>p q. cs = p @ sub @ q"
      then obtain p q where "cs = p @ sub @ q" by blast
      then have "c # cs = (c # p) @ sub @ q" by simp
      then show "\<exists>p q. c # cs = p @ sub @ q" by blast
    qed
    with ih False show ?thesis by simp
  qed
qed

lemma indexOf_contains: "(indexOf s sub \<noteq> - 1) = (\<exists>p q. s = p @ sub @ q)"
  by (simp add: indexOf_def indexOf_from_found)

lemma foldl_satoshis:
  "foldl (\<lambda>acc current. acc + satoshis current) a outs = a + sum_list (map satoshis outs)"
  by (induction outs arbitrary: a) auto

subsection \<open>Marking an error and assigning a stage\<close>

lemma markedErrorInProgress_absent:
  "progress s a = None \<Longrightarrow>
     markedErrorInProgress a why s = (Inl (ThrownTypeError assign_undefined), s\<lparr>dateCalls := Suc (dateCalls s)\<rparr>)"
  by (simp add: markedErrorInProgress_def new_Date_def)

lemma markedErrorInProgress_present:
  "progress s a = Some p \<Longrightarrow>
     markedErrorInProgress a why s =
       (Inl (ReturnedError why),
        s\<lparr>dateCalls := Suc (dateCalls s),
          progress := (progress s)(a \<mapsto> p\<lparr>status := None, lastEvent := clock s (dateCalls s),
                                           reasonForFailure := Some why\<rparr>)\<rparr>)"
  by (simp add: markedErrorInProgress_def new_Date_def)

lemma assignProgress_absent:
  "progress s a = None \<Longrightarrow>
     assignProgress a n s = (Inl (ThrownTypeError assign_undefined), s\<lparr>dateCalls := Suc (dateCalls s)\<rparr>)"
  by (simp add: assignProgress_def new_Date_def)

lemma assignProgress_present:
  "progress s a = Some p \<Longrightarrow>
     assignProgress a n s =
       (Inr (),
        s\<lparr>dateCalls := Suc (dateCalls s),
          progress := (progress s)(a \<mapsto> p\<lparr>status := Some n, lastEvent := clock s (dateCalls s)\<rparr>)\<rparr>)"
  by (simp add: assignProgress_def new_Date_def)

subsection \<open>No step but the first creates or removes a record\<close>

lemma absent_markedErrorInProgress:
  "markedErrorInProgress a w s = (r, s') \<Longrightarrow> (progress s' b = None) = (progress s b = None)"
  by (cases "progress s a")
     (auto simp: markedErrorInProgress_absent markedErrorInProgress_present split: if_splits)

lemma absent_assignProgress:
  "assignProgress a n s = (r, s') \<Longrightarrow> (progress s' b = None) = (progress s b = None)"
  by (cases "progress s a")
     (auto simp: assignProgress_absent assignProgress_present split: if_splits)

lemma absent_signFreshTest:
  "(progress (snd (signFreshTest cs got posted kp a s)) b = None) = (progress s b = None)"
proof (cases "progress s a")
  case None
  then show ?thesis by (simp add: signFreshTest_def)
next
  case (Some p)
  obtain r s' where run: "signFreshTest cs got posted kp a s = (r, s')"
    by (cases "signFreshTest cs got posted kp a s")
  from run Some have "(progress s' b = None) = (progress s b = None)"
    by (auto simp: signFreshTest_def Uint8Array_from_def Let_def getIntercomData_def
          dest!: absent_markedErrorInProgress [where b = b] absent_assignProgress [where b = b]
          split: if_splits sum.splits option.splits reply.splits prod.splits failure.splits)
  with run show ?thesis by simp
qed

lemma absent_getFreshTestResponse:
  "(progress (snd (getFreshTestResponse nv got ourAddr kp a s)) b = None) = (progress s b = None)"
proof -
  obtain r s' where run: "getFreshTestResponse nv got ourAddr kp a s = (r, s')"
    by (cases "getFreshTestResponse nv got ourAddr kp a s")
  from run have "(progress s' b = None) = (progress s b = None)"
    by (auto simp: getFreshTestResponse_def new_Date_def Let_def getIntercomData_def
          dest!: absent_markedErrorInProgress [where b = b] absent_assignProgress [where b = b]
          split: if_splits sum.splits option.splits reply.splits prod.splits bool.splits)
  with run show ?thesis by simp
qed

lemma absent_sendTxStage1:
  "(progress (snd (sendTxStage1 posted a kp tx s)) b = None) = (progress s b = None)"
  by (cases posted; cases "progress s a")
     (auto simp: sendTxStage1_def assignProgress_absent assignProgress_present)

lemma absent_sendTxStage2Partial:
  "(progress (snd (sendTxStage2Partial posted a kp tx s)) b = None) = (progress s b = None)"
  by (cases posted; cases "progress s a")
     (auto simp: sendTxStage2Partial_def assignProgress_absent assignProgress_present)

lemma absent_getTxStage1:
  "(progress (snd (getTxStage1 lib got kp a e s)) b = None) = (progress s b = None)"
proof -
  obtain r s' where run: "getTxStage1 lib got kp a e s = (r, s')"
    by (cases "getTxStage1 lib got kp a e s")
  from run have "(progress s' b = None) = (progress s b = None)"
    by (auto simp: getTxStage1_def getIntercomData_def
          dest!: absent_markedErrorInProgress [where b = b] absent_assignProgress [where b = b]
          split: if_splits sum.splits option.splits reply.splits prod.splits bool.splits
            list.splits)
  with run show ?thesis by simp
qed

lemma absent_getTxStage2Partial:
  "(progress (snd (getTxStage2Partial lib got a kp sg s)) b = None) = (progress s b = None)"
proof -
  obtain r s' where run: "getTxStage2Partial lib got a kp sg s = (r, s')"
    by (cases "getTxStage2Partial lib got a kp sg s")
  from run have "(progress s' b = None) = (progress s b = None)"
    by (auto simp: getTxStage2Partial_def getIntercomData_def
          dest!: absent_markedErrorInProgress [where b = b] absent_assignProgress [where b = b]
          split: if_splits sum.splits option.splits reply.splits prod.splits bool.splits
            list.splits)
  with run show ?thesis by simp
qed

lemma absent_getMempoolSignature:
  "(progress (snd (getMempoolSignature got z ourAddr kp s)) b = None) = (progress s b = None)"
proof -
  obtain r s' where run: "getMempoolSignature got z ourAddr kp s = (r, s')"
    by (cases "getMempoolSignature got z ourAddr kp s")
  from run have "(progress s' b = None) = (progress s b = None)"
    by (auto simp: getMempoolSignature_def getIntercomData_def
          dest!: absent_markedErrorInProgress [where b = b]
          split: sum.splits option.splits reply.splits)
  with run show ?thesis by simp
qed

subsection \<open>What a successful step wrote\<close>

lemma assignProgress_wrote:
  "assignProgress a n s = (Inr u, s') \<Longrightarrow> wrote n a s s'"
  by (cases "progress s a")
     (auto simp: assignProgress_absent assignProgress_present wrote_def)

lemma markedErrorInProgress_no_success:
  "markedErrorInProgress a w s = (r, s') \<Longrightarrow> \<not> reports_success r"
  by (cases "progress s a")
     (auto simp: markedErrorInProgress_absent markedErrorInProgress_present reports_success_def)

lemma sendFreshTest_wrote:
  "reports_success (fst (sendFreshTest posted a kp s)) \<Longrightarrow>
     wrote 0 a s (snd (sendFreshTest posted a kp s))"
  by (cases posted) (simp_all add: sendFreshTest_def new_Date_def wrote_def reports_success_def)

lemma signFreshTest_wrote:
  assumes "reports_success (fst (signFreshTest cs got posted kp a s))"
  shows "wrote (Suc 0) a s (snd (signFreshTest cs got posted kp a s))"
proof -
  obtain r s' where run: "signFreshTest cs got posted kp a s = (r, s')"
    by (cases "signFreshTest cs got posted kp a s")
  with assms have ok: "reports_success r" by simp
  let ?s1 = "s\<lparr>nextRef := Suc (nextRef s)\<rparr>"
  from run ok have "wrote 1 a ?s1 s'"
    by (auto simp: signFreshTest_def Uint8Array_from_def Let_def getIntercomData_def
          reports_success_def
          dest: markedErrorInProgress_no_success assignProgress_wrote
          split: if_splits sum.splits option.splits reply.splits prod.splits failure.splits)
  then have "wrote (Suc 0) a s s'" by (simp add: wrote_def)
  with run show ?thesis by simp
qed

lemma getFreshTestResponse_wrote:
  assumes "reports_success (fst (getFreshTestResponse nv got ourAddr kp a s))"
  shows "wrote 2 a s (snd (getFreshTestResponse nv got ourAddr kp a s))"
proof -
  obtain r s' where run: "getFreshTestResponse nv got ourAddr kp a s = (r, s')"
    by (cases "getFreshTestResponse nv got ourAddr kp a s")
  with assms have ok: "reports_success r" by simp
  let ?s1 = "s\<lparr>dateCalls := Suc (dateCalls s)\<rparr>"
  from run ok have "wrote 2 a ?s1 s'"
    by (auto simp: getFreshTestResponse_def new_Date_def Let_def getIntercomData_def
          reports_success_def
          dest: markedErrorInProgress_no_success assignProgress_wrote
          split: if_splits sum.splits option.splits reply.splits prod.splits bool.splits)
  then have "wrote 2 a s s'" by (auto simp: wrote_def)
  with run show ?thesis by simp
qed

lemma sendTxStage1_wrote:
  "reports_success (fst (sendTxStage1 posted a kp tx s)) \<Longrightarrow>
     wrote 3 a s (snd (sendTxStage1 posted a kp tx s))"
  by (cases posted; cases "progress s a")
     (simp_all add: sendTxStage1_def assignProgress_absent assignProgress_present
        reports_success_def wrote_def)

lemma getTxStage1_wrote:
  assumes "reports_success (fst (getTxStage1 lib got kp a e s))"
  shows "wrote 4 a s (snd (getTxStage1 lib got kp a e s))"
proof -
  obtain r s' where run: "getTxStage1 lib got kp a e s = (r, s')"
    by (cases "getTxStage1 lib got kp a e s")
  with assms have ok: "reports_success r" by simp
  from run ok have "wrote 4 a s s'"
    by (auto simp: getTxStage1_def getIntercomData_def reports_success_def
          dest: markedErrorInProgress_no_success assignProgress_wrote
          split: if_splits sum.splits option.splits reply.splits prod.splits bool.splits
            list.splits)
  with run show ?thesis by simp
qed

lemma sendTxStage2Partial_wrote:
  "reports_success (fst (sendTxStage2Partial posted a kp tx s)) \<Longrightarrow>
     wrote 5 a s (snd (sendTxStage2Partial posted a kp tx s))"
  by (cases posted; cases "progress s a")
     (simp_all add: sendTxStage2Partial_def assignProgress_absent assignProgress_present
        reports_success_def wrote_def)

lemma getTxStage2Partial_wrote:
  assumes "reports_success (fst (getTxStage2Partial lib got a kp sg s))"
  shows "wrote 6 a s (snd (getTxStage2Partial lib got a kp sg s))"
proof -
  obtain r s' where run: "getTxStage2Partial lib got a kp sg s = (r, s')"
    by (cases "getTxStage2Partial lib got a kp sg s")
  with assms have ok: "reports_success r" by simp
  from run ok have "wrote 6 a s s'"
    by (auto simp: getTxStage2Partial_def getIntercomData_def reports_success_def wrote_def
          dest: markedErrorInProgress_no_success dest!: assignProgress_wrote
          split: if_splits sum.splits option.splits reply.splits prod.splits bool.splits
            list.splits)
  with run show ?thesis by simp
qed

lemma exec_wrote:
  "reports_success (fst (exec c s)) \<Longrightarrow> wrote (stage c) (counterparty c) s (snd (exec c s))"
  by (cases c)
     (simp_all add: sendFreshTest_wrote signFreshTest_wrote getFreshTestResponse_wrote
        sendTxStage1_wrote getTxStage1_wrote sendTxStage2Partial_wrote getTxStage2Partial_wrote)

subsection \<open>The expectations, in terms of containment\<close>

lemma expectations_when_scripts_present:
  assumes "\<forall>out \<in> set (outputs tx). output_script out \<noteq> None"
  shows "expectationsAreMetBtcTx lib tx e =
           Inr (sum_list (map satoshis (outputs tx)) = exp_amount e
                \<and> length (filter (\<lambda>out. \<exists>sc p q. output_script out = Some sc
                                     \<and> Script_toString lib sc = p @ exp_ourAddress e @ q)
                            (outputs tx)) = 1
                \<and> length (filter (\<lambda>out. \<exists>sc p q. output_script out = Some sc
                                     \<and> Script_toString lib sc = p @ exp_zenottasAddress e @ q)
                            (outputs tx)) = 1)"
proof -
  have none: "\<not> list_ex (\<lambda>out. output_script out = None) (outputs tx)"
    using assms by (simp add: list_ex_iff)
  have flt: "filter (\<lambda>out. indexOf (Script_toString lib (the (output_script out))) a \<noteq> - 1)
               (outputs tx)
             = filter (\<lambda>out. \<exists>sc p q. output_script out = Some sc
                              \<and> Script_toString lib sc = p @ a @ q) (outputs tx)" for a
  proof (intro filter_cong refl)
    fix x assume "x \<in> set (outputs tx)"
    with assms obtain sc where sc: "output_script x = Some sc" by auto
    show "(indexOf (Script_toString lib (the (output_script x))) a \<noteq> - 1)
            = (\<exists>sc p q. output_script x = Some sc \<and> Script_toString lib sc = p @ a @ q)"
      by (simp add: sc indexOf_contains)
  qed
  show ?thesis
    unfolding expectationsAreMetBtcTx_def Let_def flt
    using none by (auto simp: foldl_satoshis)
qed

subsection \<open>The example rendering\<close>

lemma rendered_ours: "render [\<lparr>opcodenum = Some 2, buf = Some [35, 4]\<rparr>] = ''2304 ''"
  by code_simp

lemma rendered_escrow: "render [\<lparr>opcodenum = Some 2, buf = Some [229, 192]\<rparr>] = ''e5c0 ''"
  by code_simp

lemma contains_ours:
  "\<exists>p q. ''2304 '' = p @ ''2304'' @ q"
  "\<not> (\<exists>p q. ''e5c0 '' = p @ ''2304'' @ q)"
proof -
  have "indexOf ''2304 '' ''2304'' \<noteq> - 1" by (simp add: indexOf_def)
  then show "\<exists>p q. ''2304 '' = p @ ''2304'' @ q"
    unfolding indexOf_contains .
  have "\<not> indexOf ''e5c0 '' ''2304'' \<noteq> - 1" by (simp add: indexOf_def)
  then show "\<not> (\<exists>p q. ''e5c0 '' = p @ ''2304'' @ q)"
    unfolding indexOf_contains .
qed

lemma contains_escrow:
  "\<exists>p q. ''e5c0 '' = p @ ''e5c0'' @ q"
  "\<not> (\<exists>p q. ''2304 '' = p @ ''e5c0'' @ q)"
proof -
  have "indexOf ''e5c0 '' ''e5c0'' \<noteq> - 1" by (simp add: indexOf_def)
  then show "\<exists>p q. ''e5c0 '' = p @ ''e5c0'' @ q"
    unfolding indexOf_contains .
  have "\<not> indexOf ''2304 '' ''e5c0'' \<noteq> - 1" by (simp add: indexOf_def)
  then show "\<not> (\<exists>p q. ''2304 '' = p @ ''e5c0'' @ q)"
    unfolding indexOf_contains .
qed

lemma plain_lib_accepts: "Interpreter_verify plain_lib a b"
  by (simp add: plain_lib_def)

lemma paid_tx_inputs:
  "inputs paid_tx = [\<lparr>input_script = Some [\<lparr>opcodenum = Some 0, buf = None\<rparr>]\<rparr>]"
  by (simp add: paid_tx_def)

lemma paid_tx_outputs:
  "outputs paid_tx =
     [\<lparr>satoshis = 400, output_script = Some [\<lparr>opcodenum = Some 2, buf = Some [35, 4]\<rparr>]\<rparr>,
      \<lparr>satoshis = 100, output_script = Some [\<lparr>opcodenum = Some 2, buf = Some [229, 192]\<rparr>]\<rparr>]"
  by (simp add: paid_tx_def)

lemma unscripted_tx_inputs: "inputs unscripted_tx = inputs paid_tx"
  by (simp add: unscripted_tx_def)

lemma unscripted_tx_outputs:
  "outputs unscripted_tx = outputs paid_tx @ [\<lparr>satoshis = 0, output_script = None\<rparr>]"
  by (simp add: unscripted_tx_def)

subsection \<open>The fee under positive constants\<close>





subsection \<open>The chunks of the escrow script\<close>

lemma constructTxStage1Script_chunks:
  assumes "Opcode_map lib ''OP_IF'' = Some n" and "n \<noteq> 76" and "n \<noteq> 77" and "n \<noteq> 78"
  shows "constructTxStage1Script k lib inp =
           Inr (map op_chunk
             [Some n, Opcode_map lib ''OP_0'', Opcode_map lib ''OP_2'',
              Opcode_map lib (theirAddress inp), Opcode_map lib (zenottasAddress inp),
              Opcode_map lib ''OP_2'', Opcode_map lib ''OP_CHECKMULTISIG'',
              Opcode_map lib ''OP_ELSE'',
              Some (getLockTimeFromDays k (daysToLock inp) (startBlockHeight inp)),
              Opcode_map lib ''OP_CHECKLOCKTIMEVERIFY'', Opcode_map lib ''OP_DROP'',
              Opcode_map lib ''OP_DUP'', Opcode_map lib ''OP_HASH160'',
              Opcode_map lib (ourReturnAddress inp), Opcode_map lib ''OP_EQUALVERIFY'',
              Opcode_map lib ''OP_CHECKSIG'', Opcode_map lib ''OP_ENDIF''])"
  using assms
  by (simp add: constructTxStage1Script_def Script_new_def Script_add_def op_chunk_def Let_def)

text \<open>
  No address that is not an opcode name reaches the script: two inputs with the same lock
  give the same script, whatever their addresses.
\<close>

lemma constructTxStage1Script_drops_addresses:
  assumes "Opcode_map lib (theirAddress inp) = None"
      and "Opcode_map lib (zenottasAddress inp) = None"
      and "Opcode_map lib (ourReturnAddress inp) = None"
      and "Opcode_map lib (theirAddress inp') = None"
      and "Opcode_map lib (zenottasAddress inp') = None"
      and "Opcode_map lib (ourReturnAddress inp') = None"
      and "daysToLock inp' = daysToLock inp"
      and "startBlockHeight inp' = startBlockHeight inp"
  shows "constructTxStage1Script k lib inp' = constructTxStage1Script k lib inp"
  using assms
  by (simp add: constructTxStage1Script_def Script_add_def Let_def split: sum.splits)

section \<open>Fee calculation\<close>

text \<open>
  C1. For all satoshisPerByte, inputCount, satoshisToSend and totalAmountAvailable,
  \<open>calculateFee\<close> computes txSize = inputCount * INPUT_SIZE + OUTPUT_SIZE + 10 - inputCount
  and fee = satoshisPerByte * txSize; it returns none exactly when
  totalAmountAvailable - satoshisToSend - fee is negative, and the fee otherwise.
\<close>

theorem calculateFee_none_iff_short:
  fixes k :: constants and spb n send avail :: int
  defines "fee \<equiv> spb * (n * INPUT_SIZE k + OUTPUT_SIZE k + 10 - n)"
  shows "(calculateFee k spb n send avail = None) = (avail - send - fee < 0)
       \<and> calculateFee k spb n send avail = (if avail - send - fee < 0 then None else Some fee)"
  by (simp add: calculateFee_def fee_def Let_def)

section \<open>The identity guard of signFreshTest\<close>

text \<open>
  Whatever the bytes are, the guard compares a typed array allocated by the call with the
  caller's public key, an object that existed before the call: the two identities differ
  and the operation always ends in the mismatch error.
\<close>

lemma signFreshTest_guard_always_fires:
  assumes "progress s their = Some p"
      and "ref (publicKey kp) < nextRef s"
  shows "fst (signFreshTest cs got posted kp their s)
           = Inl (ReturnedError ''Our address does not match our public key'')"
  using assms
  by (simp add: signFreshTest_def Uint8Array_from_def loose_neq_def Let_def
        markedErrorInProgress_def new_Date_def)

text \<open>
  C2. The claim: for a counterparty with a stored record, \<open>signFreshTest\<close> fails with
  ``Our address does not match our public key'' if and only if the record's \<open>ourAddress\<close>,
  decoded from hex, differs from the caller's public key, and proceeds when they are
  equal. The code at an input where the decoded address is the public key, byte for
  byte: the operation still fails with the mismatch error, whatever the relay answers.
\<close>

theorem signFreshTest_rejects_matching_key:
  "progress after_send ''b0b0'' \<noteq> None
   \<and> Buffer_from_hex (ourAddress (the (progress after_send ''b0b0''))) = bytes (publicKey alice)
   \<and> fst (signFreshTest cs got posted alice ''b0b0'' after_send)
       = Inl (ReturnedError ''Our address does not match our public key'')"
  by (simp add: after_send_def sendFreshTest_def new_Date_def fresh_bridge_def
        HelixBridgeBTC_new_def alice_def hexDigit_def signFreshTest_def Uint8Array_from_def
        loose_neq_def markedErrorInProgress_def)

section \<open>The freshness timeout\<close>

text \<open>
  C3. For a counterparty whose progress record exists and whose fresh test is present in
  the fetched mailbox data: if the time between the record's \<open>lastEvent\<close> and the time of
  the call exceeds the configured timeout (in hours; 12 by default), then
  \<open>getFreshTestResponse\<close> returns the error ``Fresh test response timed out'' and marks the
  record Failed, whatever the fresh test's signature is and whatever the verifier would
  answer.
\<close>

theorem getFreshTestResponse_times_out:
  assumes "d their = Some ft"
      and "progress s their = Some p"
      and "of_int (clock s (dateCalls s) - lastEvent p) > freshTestResponseTimeout s * 3600000"
  shows "getFreshTestResponse nv (Resolved d) ourAddr kp their s =
           (Inl (ReturnedError ''Fresh test response timed out''),
            s\<lparr>dateCalls := Suc (Suc (dateCalls s)),
              progress := (progress s)(their \<mapsto>
                p\<lparr>status := None, lastEvent := clock s (Suc (dateCalls s)),
                  reasonForFailure := Some ''Fresh test response timed out''\<rparr>)\<rparr>)"
proof -
  have late: "formatMillisecondsToHours (clock s (dateCalls s) - lastEvent p)
                > freshTestResponseTimeout s"
    using assms(3) by (simp add: formatMillisecondsToHours_def field_simps)
  show ?thesis
    using assms(1,2) late
    by (simp add: getFreshTestResponse_def getIntercomData_def new_Date_def
          markedErrorInProgress_def)
qed

theorem getFreshTestResponse_times_out_witness:
  "freshTestResponseTimeout after_send = 12
   \<and> clock after_send (dateCalls after_send)
       - lastEvent (the (progress after_send ''b0b0'')) = 13 * 3600000
   \<and> fst (getFreshTestResponse accept_all (Resolved [''b0b0'' \<mapsto> signed_test]) ''2304'' alice
            ''b0b0'' after_send)
       = Inl (ReturnedError ''Fresh test response timed out'')
   \<and> map_option status
        (progress (snd (getFreshTestResponse accept_all (Resolved [''b0b0'' \<mapsto> signed_test])
                          ''2304'' alice ''b0b0'' after_send)) ''b0b0'')
       = Some None"
proof -
  let ?p = "\<lparr>status = Some 0, lastEvent = 0, ourAddress = ''2304'', reasonForFailure = None\<rparr>"
  have got: "[''b0b0'' \<mapsto> signed_test] ''b0b0'' = Some signed_test" by simp
  have rec: "progress after_send ''b0b0'' = Some ?p"
    by (simp add: after_send_def sendFreshTest_def new_Date_def fresh_bridge_def
          HelixBridgeBTC_new_def alice_def every_13_hours_def)
  have tmo: "freshTestResponseTimeout after_send = 12"
    by (simp add: after_send_def sendFreshTest_def new_Date_def fresh_bridge_def
          HelixBridgeBTC_new_def)
  have now: "clock after_send (dateCalls after_send) = 46800000"
    by (simp add: after_send_def sendFreshTest_def new_Date_def fresh_bridge_def
          HelixBridgeBTC_new_def every_13_hours_def)
  have late: "of_int (clock after_send (dateCalls after_send) - lastEvent ?p)
                > freshTestResponseTimeout after_send * 3600000"
    by (simp add: tmo now)
  show ?thesis
    using getFreshTestResponse_times_out [where d = "[''b0b0'' \<mapsto> signed_test]"
        and their = "''b0b0''" and nv = accept_all and ourAddr = "''2304''" and kp = alice,
        OF got rec late]
      rec tmo now
    by simp
qed

section \<open>Verification of the first transaction stage\<close>

text \<open>
  C4, as amended. For a counterparty that has a progress record, and a fetched transaction
  with at least one input and one output in which every output after the first carries a
  script: \<open>getTxStage1\<close> advances the counterparty's status to 4 if and only if the script
  interpreter accepts the pair (first input's script, first output's script), exactly one
  output's script contains \<open>ourAddress\<close>, exactly one contains the escrow address, and the
  satoshi amounts of all outputs sum to the expected amount. If one of these checks fails,
  the record is marked Failed with a reason that names the check.
\<close>

theorem getTxStage1_verified_iff:
  fixes lib :: bitcore and e :: IBtcExpectations and tx :: Transaction
    and d :: "string \<rightharpoonup> Transaction" and kp :: IKeypair and their :: string
    and s :: bridge
  defines "paying a \<equiv> filter (\<lambda>out. \<exists>sc p q. output_script out = Some sc
                                    \<and> Script_toString lib sc = p @ a @ q) (outputs tx)"
  defines "met \<equiv>
             (\<exists>a b. input_script (hd (inputs tx)) = Some a
                    \<and> output_script (hd (outputs tx)) = Some b
                    \<and> Interpreter_verify lib a b)
             \<and> length (paying (exp_ourAddress e)) = 1
             \<and> length (paying (exp_zenottasAddress e)) = 1
             \<and> sum_list (map satoshis (outputs tx)) = exp_amount e"
  defines "run \<equiv> getTxStage1 lib (Resolved d) kp their e s"
  assumes rec: "progress s their = Some p"
      and got: "d their = Some tx"
      and ins: "inputs tx \<noteq> []"
      and outs: "outputs tx \<noteq> []"
      and scripts: "\<forall>out \<in> set (tl (outputs tx)). output_script out \<noteq> None"
  shows "(\<exists>p'. progress (snd run) their = Some p' \<and> status p' = Some 4) = met
       \<and> (met \<longrightarrow> fst run = Inr (success ''Received first transaction stage'' (TxContent tx)))
       \<and> (\<not> met \<longrightarrow>
            (\<exists>why p'. fst run = Inl (ReturnedError why)
                \<and> why \<in> {''No input or output script found for '' @ their,
                           ''Invalid transaction TxA'',
                           ''Expectations not met for '' @ their}
                \<and> progress (snd run) their = Some p'
                \<and> status p' = None
                \<and> reasonForFailure p' = Some why))"
proof -
  obtain i0 irest where i: "inputs tx = i0 # irest" using ins by (cases "inputs tx") auto
  obtain o0 orest where o: "outputs tx = o0 # orest" using outs by (cases "outputs tx") auto
  show ?thesis
  proof (cases "input_script i0")
    case None
    then show ?thesis
      using rec got i o
      by (simp add: run_def met_def getTxStage1_def getIntercomData_def
            markedErrorInProgress_present)
  next
    case (Some a)
    note a = this
    show ?thesis
    proof (cases "output_script o0")
      case None
      then show ?thesis
        using rec got i o a
        by (simp add: run_def met_def getTxStage1_def getIntercomData_def
              markedErrorInProgress_present)
    next
      case (Some b)
      have all: "\<forall>out \<in> set (outputs tx). output_script out \<noteq> None"
        using scripts o Some by auto
      note ex = expectations_when_scripts_present [OF all, of lib e]
      show ?thesis
      proof (cases "Interpreter_verify lib a b")
        case False
        then show ?thesis
          using rec got i o a Some
          by (simp add: run_def met_def getTxStage1_def getIntercomData_def
                markedErrorInProgress_present)
      next
        case True
        show ?thesis
        proof (cases "expectationsAreMetBtcTx lib tx e = Inr True")
          case True
          from True have "sum_list (map satoshis (outputs tx)) = exp_amount e
                      \<and> length (paying (exp_ourAddress e)) = 1
                      \<and> length (paying (exp_zenottasAddress e)) = 1"
            unfolding ex paying_def by simp
          then have m: met
            using \<open>Interpreter_verify lib a b\<close> a Some i o unfolding met_def by simp
          have "run = (Inr (success ''Received first transaction stage'' (TxContent tx)),
                       s\<lparr>dateCalls := Suc (dateCalls s),
                         progress := (progress s)(their \<mapsto>
                            p\<lparr>status := Some 4, lastEvent := clock s (dateCalls s)\<rparr>)\<rparr>)"
            using rec got i o a Some True \<open>Interpreter_verify lib a b\<close>
            by (simp add: run_def getTxStage1_def getIntercomData_def assignProgress_present)
          with m show ?thesis by simp
        next
          case False
          then have f: "expectationsAreMetBtcTx lib tx e = Inr False"
            unfolding ex by simp
          from f have "\<not> (sum_list (map satoshis (outputs tx)) = exp_amount e
                      \<and> length (paying (exp_ourAddress e)) = 1
                      \<and> length (paying (exp_zenottasAddress e)) = 1)"
            unfolding ex paying_def by simp
          then have m: "\<not> met" unfolding met_def by blast
          have "run = (Inl (ReturnedError (''Expectations not met for '' @ their)),
                       s\<lparr>dateCalls := Suc (dateCalls s),
                         progress := (progress s)(their \<mapsto>
                            p\<lparr>status := None, lastEvent := clock s (dateCalls s),
                              reasonForFailure := Some (''Expectations not met for '' @ their)\<rparr>)\<rparr>)"
            using rec got i o a Some f \<open>Interpreter_verify lib a b\<close>
            by (simp add: run_def getTxStage1_def getIntercomData_def
                  markedErrorInProgress_present)
          with m show ?thesis by simp
        qed
      qed
    qed
  qed
qed

theorem getTxStage1_verified_iff_witness:
  "progress after_send ''b0b0''
     = Some \<lparr>status = Some 0, lastEvent = 0, ourAddress = ''2304'', reasonForFailure = None\<rparr>
   \<and> inputs paid_tx \<noteq> [] \<and> outputs paid_tx \<noteq> []
   \<and> list_all (\<lambda>out. output_script out \<noteq> None) (tl (outputs paid_tx))
   \<and> map_option status
        (progress (snd (getTxStage1 plain_lib (Resolved [''b0b0'' \<mapsto> paid_tx]) alice ''b0b0''
                          paid_expectations after_send)) ''b0b0'')
       = Some (Some 4)
   \<and> fst (getTxStage1 plain_lib (Resolved [''b0b0'' \<mapsto> paid_tx]) alice ''b0b0''
            paid_expectations after_send)
       = Inr (success ''Received first transaction stage'' (TxContent paid_tx))
   \<and> length (filter (\<lambda>out. \<exists>sc p q. output_script out = Some sc
                          \<and> Script_toString plain_lib sc = p @ ''2304'' @ q)
                (outputs paid_tx)) = 1"
proof -
  let ?p = "\<lparr>status = Some 0, lastEvent = 0, ourAddress = ''2304'', reasonForFailure = None\<rparr>"
  let ?d = "[''b0b0'' \<mapsto> paid_tx]"
  let ?run = "getTxStage1 plain_lib (Resolved ?d) alice ''b0b0'' paid_expectations after_send"
  have rec: "progress after_send ''b0b0'' = Some ?p"
    by (simp add: after_send_def sendFreshTest_def new_Date_def fresh_bridge_def
          HelixBridgeBTC_new_def alice_def every_13_hours_def)
  have got: "?d ''b0b0'' = Some paid_tx" by simp
  have ins: "inputs paid_tx \<noteq> []" by (simp add: paid_tx_def)
  have outs: "outputs paid_tx \<noteq> []" by (simp add: paid_tx_def)
  have scripts: "\<forall>out \<in> set (tl (outputs paid_tx)). output_script out \<noteq> None"
    by (simp add: paid_tx_def)
  have met: "expectationsAreMetBtcTx plain_lib paid_tx paid_expectations = Inr True"
    by (simp add: expectationsAreMetBtcTx_def paid_tx_def plain_lib_def paid_expectations_def
          rendered_ours rendered_escrow indexOf_def Let_def)
  have stage4: "\<exists>p'. progress (snd ?run) ''b0b0'' = Some p' \<and> status p' = Some 4"
    using rec
    by (simp add: getTxStage1_def getIntercomData_def met assignProgress_present
          paid_tx_inputs paid_tx_outputs plain_lib_accepts)
  note inst = getTxStage1_verified_iff [where d = "?d" and their = "''b0b0''"
      and lib = plain_lib and e = paid_expectations and kp = alice,
      OF rec got ins outs scripts]
  from inst stage4
  have cond: "length (filter (\<lambda>out. \<exists>sc p q. output_script out = Some sc
                          \<and> Script_toString plain_lib sc = p @ ''2304'' @ q)
                (outputs paid_tx)) = 1"
    and res: "fst ?run = Inr (success ''Received first transaction stage'' (TxContent paid_tx))"
    by (simp_all add: paid_expectations_def)
  from stage4 have st: "map_option status (progress (snd ?run) ''b0b0'') = Some (Some 4)"
    by auto
  show ?thesis
    using rec ins outs scripts st res cond by (simp add: list_all_iff)
qed

text \<open>
  The claim as first stated fails. On a record at stage 0 and a fetched transaction that
  meets all four conditions but has a third output without a script, \<open>getTxStage1\<close> throws
  when it renders that output: the status stays 0, neither 4 nor Failed. With the same
  conditions met and no progress record for the counterparty, it throws as well and no
  record appears.
\<close>

theorem getTxStage1_conditions_met_yet_thrown:
  "Interpreter_verify plain_lib (the (input_script (hd (inputs unscripted_tx))))
       (the (output_script (hd (outputs unscripted_tx))))
   \<and> length (filter (\<lambda>out. \<exists>sc p q. output_script out = Some sc
                          \<and> Script_toString plain_lib sc = p @ exp_ourAddress paid_expectations @ q)
                (outputs unscripted_tx)) = 1
   \<and> length (filter (\<lambda>out. \<exists>sc p q. output_script out = Some sc
                          \<and> Script_toString plain_lib sc
                              = p @ exp_zenottasAddress paid_expectations @ q)
                (outputs unscripted_tx)) = 1
   \<and> sum_list (map satoshis (outputs unscripted_tx)) = exp_amount paid_expectations
   \<and> getTxStage1 plain_lib (Resolved [''b0b0'' \<mapsto> unscripted_tx]) alice ''b0b0''
        paid_expectations after_send
       = (Inl (ThrownTypeError read_undefined), after_send)
   \<and> map_option status (progress after_send ''b0b0'') = Some (Some 0)
   \<and> fst (getTxStage1 plain_lib (Resolved [''b0b0'' \<mapsto> paid_tx]) alice ''b0b0''
            paid_expectations fresh_bridge)
       = Inl (ThrownTypeError assign_undefined)
   \<and> progress (snd (getTxStage1 plain_lib (Resolved [''b0b0'' \<mapsto> paid_tx]) alice ''b0b0''
                       paid_expectations fresh_bridge)) ''b0b0'' = None"
proof -
  have rec: "map_option status (progress after_send ''b0b0'') = Some (Some 0)"
    by (simp add: after_send_def sendFreshTest_def new_Date_def fresh_bridge_def
          HelixBridgeBTC_new_def)
  have none: "progress fresh_bridge ''b0b0'' = None"
    by (simp add: fresh_bridge_def HelixBridgeBTC_new_def)
  have met: "expectationsAreMetBtcTx plain_lib paid_tx paid_expectations = Inr True"
    by (simp add: expectationsAreMetBtcTx_def paid_tx_def plain_lib_def paid_expectations_def
          rendered_ours rendered_escrow indexOf_def Let_def)
  have thrown: "expectationsAreMetBtcTx plain_lib unscripted_tx paid_expectations
                  = Inl (ThrownTypeError read_undefined)"
    by (simp add: expectationsAreMetBtcTx_def unscripted_tx_def paid_tx_def Let_def)
  have c1: "getTxStage1 plain_lib (Resolved [''b0b0'' \<mapsto> unscripted_tx]) alice ''b0b0''
              paid_expectations after_send = (Inl (ThrownTypeError read_undefined), after_send)"
    by (simp add: getTxStage1_def getIntercomData_def thrown unscripted_tx_inputs
          unscripted_tx_outputs paid_tx_inputs paid_tx_outputs plain_lib_accepts)
  have c2: "getTxStage1 plain_lib (Resolved [''b0b0'' \<mapsto> paid_tx]) alice ''b0b0''
              paid_expectations fresh_bridge
            = (Inl (ThrownTypeError assign_undefined),
               fresh_bridge\<lparr>dateCalls := Suc (dateCalls fresh_bridge)\<rparr>)"
    using none
    by (simp add: getTxStage1_def getIntercomData_def met assignProgress_absent
          paid_tx_inputs paid_tx_outputs plain_lib_accepts)
  have ours: "length (filter (\<lambda>out. \<exists>sc p q. output_script out = Some sc
                          \<and> Script_toString plain_lib sc = p @ exp_ourAddress paid_expectations @ q)
                (outputs unscripted_tx)) = 1"
    using contains_ours
    by (simp add: unscripted_tx_outputs paid_tx_outputs plain_lib_def paid_expectations_def
          rendered_ours rendered_escrow)
  have escrow: "length (filter (\<lambda>out. \<exists>sc p q. output_script out = Some sc
                          \<and> Script_toString plain_lib sc
                              = p @ exp_zenottasAddress paid_expectations @ q)
                (outputs unscripted_tx)) = 1"
    using contains_escrow
    by (simp add: unscripted_tx_outputs paid_tx_outputs plain_lib_def paid_expectations_def
          rendered_ours rendered_escrow)
  have total: "sum_list (map satoshis (outputs unscripted_tx)) = exp_amount paid_expectations"
    by (simp add: unscripted_tx_def paid_tx_def paid_expectations_def)
  have accepted: "Interpreter_verify plain_lib (the (input_script (hd (inputs unscripted_tx))))
       (the (output_script (hd (outputs unscripted_tx))))"
    by (simp add: plain_lib_def)
  show ?thesis
    using accepted ours escrow total c1 rec c2 none by simp
qed

section \<open>The escrow script\<close>

text \<open>
  C5. The claim: for every daysToLock and startBlockHeight, \<open>constructTxStage1Script\<close>
  produces the script \<open>OP_IF OP_0 OP_2 <theirAddress> <zenottasAddress> OP_2
  OP_CHECKMULTISIG OP_ELSE <locktime> OP_CHECKLOCKTIMEVERIFY OP_DROP OP_DUP OP_HASH160
  <ourReturnAddress> OP_EQUALVERIFY OP_CHECKSIG OP_ENDIF\<close> with locktime =
  floor(daysToLock * 86400 / \<open>BTC_BLOCKTIME_SECS\<close>) + startBlockHeight. The code at a lock
  of two and a half days from block 700000 and a block time of 600 seconds: the three
  addresses are given to \<open>add\<close> as strings, which \<open>add\<close> looks up as opcode names, so the
  script holds a chunk with an undefined opcode in the place of each address and no
  address at all; the lock time 700360 is given as a number, which \<open>add\<close> takes as an
  opcode number and not as data to push; and another input with three other addresses
  gives the very same script.
\<close>

theorem constructTxStage1Script_holds_no_address:
  "Opcode_map plain_lib (theirAddress escrow_input) = None
   \<and> Opcode_map plain_lib (zenottasAddress escrow_input) = None
   \<and> Opcode_map plain_lib (ourReturnAddress escrow_input) = None
   \<and> constructTxStage1Script usual_rate plain_lib escrow_input
       = Inr (map op_chunk
           [Some 99, Some 0, Some 82, None, None, Some 82, Some 174, Some 103, Some 700360,
            Some 177, Some 117, Some 118, Some 169, None, Some 136, Some 172, Some 104])
   \<and> theirAddress other_input \<noteq> theirAddress escrow_input
   \<and> constructTxStage1Script usual_rate plain_lib other_input
       = constructTxStage1Script usual_rate plain_lib escrow_input"
  by (simp add: constructTxStage1Script_def Script_new_def Script_add_def op_chunk_def Let_def
        getLockTimeFromDays_def plain_lib_def bridge_opcodes_def escrow_input_def
        other_input_def usual_rate_def)

section \<open>Monotonicity of the status\<close>

text \<open>
  C6, as amended. Each of the seven steps (\<open>sendFreshTest\<close>, \<open>signFreshTest\<close>,
  \<open>getFreshTestResponse\<close>, \<open>sendTxStage1\<close>, \<open>getTxStage1\<close>, \<open>sendTxStage2Partial\<close>,
  \<open>getTxStage2Partial\<close>) that reports success leaves the counterparty's record at the
  step's own stage number (0 to 6 in that order), whatever the status was before, with
  \<open>lastEvent\<close> the clock reading made at the update; so the status is strictly greater than
  before whenever the previous status was a lower stage. Every failure recorded on an
  existing record sets the status to \<open>null\<close> (Failed) and stores the reason, with the
  error returned. No step reads the previous status.
\<close>

theorem successful_step_writes_its_stage:
  "(reports_success (fst (exec c s)) \<longrightarrow>
      (\<exists>p'. progress (snd (exec c s)) (counterparty c) = Some p'
           \<and> status p' = Some (stage c)
           \<and> lastEvent p' = clock s (dateCalls (snd (exec c s)) - 1)
           \<and> dateCalls s < dateCalls (snd (exec c s))
           \<and> (\<forall>p n. progress s (counterparty c) = Some p \<and> status p = Some n \<and> n < stage c
                 \<longrightarrow> (\<exists>m. status p' = Some m \<and> n < m))))
   \<and> (\<forall>p. progress s a = Some p \<longrightarrow>
         fst (markedErrorInProgress a why s :: (failure + IClientResponse) \<times> bridge)
           = Inl (ReturnedError why)
         \<and> (\<exists>p'. progress (snd (markedErrorInProgress a why s
                                   :: (failure + IClientResponse) \<times> bridge)) a = Some p'
                \<and> status p' = None
                \<and> reasonForFailure p' = Some why
                \<and> lastEvent p' = clock s (dateCalls s)))"
proof (intro conjI impI allI)
  assume "reports_success (fst (exec c s))"
  then have "wrote (stage c) (counterparty c) s (snd (exec c s))" by (rule exec_wrote)
  then show "\<exists>p'. progress (snd (exec c s)) (counterparty c) = Some p'
           \<and> status p' = Some (stage c)
           \<and> lastEvent p' = clock s (dateCalls (snd (exec c s)) - 1)
           \<and> dateCalls s < dateCalls (snd (exec c s))
           \<and> (\<forall>p n. progress s (counterparty c) = Some p \<and> status p = Some n \<and> n < stage c
                 \<longrightarrow> (\<exists>m. status p' = Some m \<and> n < m))"
    by (auto simp: wrote_def)
next
  fix p assume "progress s a = Some p"
  then show "fst (markedErrorInProgress a why s :: (failure + IClientResponse) \<times> bridge)
           = Inl (ReturnedError why)"
    by (simp add: markedErrorInProgress_present)
next
  fix p assume "progress s a = Some p"
  then show "\<exists>p'. progress (snd (markedErrorInProgress a why s
                                   :: (failure + IClientResponse) \<times> bridge)) a = Some p'
                \<and> status p' = None
                \<and> reasonForFailure p' = Some why
                \<and> lastEvent p' = clock s (dateCalls s)"
    by (simp add: markedErrorInProgress_present)
qed

theorem successful_step_writes_its_stage_witness:
  "reports_success (fst (exec (SendTxStage1 (Resolved ()) ''b0b0'' alice some_tx) after_send))
   \<and> map_option status (progress after_send ''b0b0'') = Some (Some 0)
   \<and> map_option status
        (progress (snd (exec (SendTxStage1 (Resolved ()) ''b0b0'' alice some_tx) after_send))
           ''b0b0'') = Some (Some 3)
   \<and> map_option lastEvent
        (progress (snd (exec (SendTxStage1 (Resolved ()) ''b0b0'' alice some_tx) after_send))
           ''b0b0'') = Some 46800000
   \<and> map_option status
        (progress (snd (markedErrorInProgress ''b0b0'' ''Invalid transaction TxA'' after_send
                          :: (failure + IClientResponse) \<times> bridge)) ''b0b0'') = Some None
   \<and> map_option reasonForFailure
        (progress (snd (markedErrorInProgress ''b0b0'' ''Invalid transaction TxA'' after_send
                          :: (failure + IClientResponse) \<times> bridge)) ''b0b0'')
       = Some (Some ''Invalid transaction TxA'')"
proof -
  let ?c = "SendTxStage1 (Resolved ()) ''b0b0'' alice some_tx"
  let ?p = "\<lparr>status = Some 0, lastEvent = 0, ourAddress = ''2304'', reasonForFailure = None\<rparr>"
  have rec: "progress after_send ''b0b0'' = Some ?p"
    by (simp add: after_send_def sendFreshTest_def new_Date_def fresh_bridge_def
          HelixBridgeBTC_new_def alice_def every_13_hours_def)
  have ok: "reports_success (fst (exec ?c after_send))"
    using rec by (simp add: sendTxStage1_def assignProgress_present reports_success_def
          success_def)
  have calls: "dateCalls (snd (sendTxStage1 (Resolved ()) ''b0b0'' alice some_tx after_send)) = 2"
    using rec
    by (simp add: sendTxStage1_def assignProgress_present after_send_def sendFreshTest_def
          new_Date_def fresh_bridge_def HelixBridgeBTC_new_def)
  have clk: "clock after_send = every_13_hours"
    by (simp add: after_send_def sendFreshTest_def new_Date_def fresh_bridge_def
          HelixBridgeBTC_new_def)
  note inst = successful_step_writes_its_stage [of ?c after_send "''b0b0''"
      "''Invalid transaction TxA''"]
  from inst ok obtain p' where p':
      "progress (snd (exec ?c after_send)) ''b0b0'' = Some p'" "status p' = Some 3"
      "lastEvent p' = clock after_send (dateCalls (snd (exec ?c after_send)) - 1)"
    by auto
  from inst rec obtain q' where q':
      "progress (snd (markedErrorInProgress ''b0b0'' ''Invalid transaction TxA'' after_send
                          :: (failure + IClientResponse) \<times> bridge)) ''b0b0'' = Some q'"
      "status q' = None" "reasonForFailure q' = Some ''Invalid transaction TxA''"
    by blast
  show ?thesis
    using ok rec p' q' by (simp add: calls clk every_13_hours_def)
qed

text \<open>
  The claim as first stated (every successful step sets the status to a value strictly
  greater than the previous one, and no step moves it backwards) fails: from stage 5, a
  successful \<open>sendTxStage1\<close> leaves the record at stage 3.
\<close>

theorem successful_step_moves_status_back:
  "reports_success (fst (exec (SendTxStage1 (Resolved ()) ''b0b0'' alice some_tx) at_stage5))
   \<and> map_option status (progress at_stage5 ''b0b0'') = Some (Some 5)
   \<and> map_option status
        (progress (snd (exec (SendTxStage1 (Resolved ()) ''b0b0'' alice some_tx) at_stage5))
           ''b0b0'') = Some (Some 3)
   \<and> \<not> (the (status (the (progress at_stage5 ''b0b0'')))
          < the (status (the (progress
              (snd (exec (SendTxStage1 (Resolved ()) ''b0b0'' alice some_tx) at_stage5))
              ''b0b0''))))"
  by (simp add: sendTxStage1_def assignProgress_def new_Date_def at_stage5_def
        fresh_bridge_def HelixBridgeBTC_new_def reports_success_def success_def)

section \<open>Zero fee and failed fee calculation\<close>

text \<open>
  The fee is tested with \<open>!fee\<close>. At a rate of zero satoshis per byte \<open>calculateFee\<close> returns
  the fee 0 and the test takes it for a failure; with positive constants the fee is never
  zero, as the theorem below states.
\<close>

lemma constructTransaction_at_zero_rate:
  "calculateFee free_rate (SATOSHI_PER_BYTE_PAYMENT free_rate) 1 500 1000 = Some 0
   \<and> constructTransaction free_rate lib priced (Resolved one_utxo) ''key'' ''b0b0'' 500
       = Inl (ReturnedError ''Not enough funds'')"
  by (simp add: calculateFee_def free_rate_def constructTransaction_def fetchInputsFromUtxo_def
        one_utxo_def falsy_def priced_def Let_def)



section \<open>The signature of the mailbox bodies\<close>

text \<open>
  C8. For a fixed own address and keypair, the signature of the get body, of the set body
  for any target address and any value, and of the delete body for any field address are
  all equal: each is the signature of the caller's own address under the caller's secret
  key, independent of the target key, the field key and the value.
\<close>

theorem intercom_signature_invariant:
  "body_signature (generateIntercomGetBody Sign addr kp :: 'a IntercomBody)
     = Sign (bytes (secretKey kp)) addr
   \<and> body_signature (generateIntercomSetBody Sign target addr kp (v :: 'b))
     = Sign (bytes (secretKey kp)) addr
   \<and> body_signature (generateIntercomDelBody Sign addr fld kp :: 'c IntercomBody)
     = Sign (bytes (secretKey kp)) addr"
  by (simp add: generateIntercomGetBody_def generateIntercomSetBody_def
        generateIntercomDelBody_def)

section \<open>Marking an error without a record\<close>

text \<open>
  C9. \<open>markedErrorInProgress\<close> presupposes a progress record: for an address with no entry
  in the progress map, it throws a \<open>TypeError\<close> and stores nothing, and so does every
  failure path that marks an error under that address; it does not return an \<open>Error\<close>
  value. Such paths are \<open>getMempoolSignature\<close> when the relay holds no entry for Zenotta's
  address, and \<open>getTxStage1\<close> and \<open>getTxStage2Partial\<close> when it holds none for the
  counterparty.
\<close>

theorem mark_on_missing_record_throws:
  assumes "progress s a = None"
  shows "fst (markedErrorInProgress a why s :: (failure + IClientResponse) \<times> bridge)
           = Inl (ThrownTypeError assign_undefined)
       \<and> progress (snd (markedErrorInProgress a why s :: (failure + IClientResponse) \<times> bridge))
           = progress s
       \<and> (\<forall>d. d a = None \<longrightarrow>
             fst (getMempoolSignature (Resolved d) a ourAddr kp s :: (failure + IClientResponse) \<times> bridge)
               = Inl (ThrownTypeError assign_undefined))
       \<and> (\<forall>d. d a = None \<longrightarrow>
             fst (getTxStage1 lib (Resolved d) kp a e s) = Inl (ThrownTypeError assign_undefined))
       \<and> (\<forall>d. d a = None \<longrightarrow>
             fst (getTxStage2Partial lib (Resolved d) a kp sg s)
               = Inl (ThrownTypeError assign_undefined))"
  using assms
  by (simp add: markedErrorInProgress_absent getMempoolSignature_def getTxStage1_def
        getTxStage2Partial_def getIntercomData_def)

theorem mark_on_missing_record_throws_witness:
  "progress fresh_bridge ''e5c0'' = None
   \<and> fst (markedErrorInProgress ''e5c0'' ''No signature'' fresh_bridge
            :: (failure + IClientResponse) \<times> bridge)
       = Inl (ThrownTypeError assign_undefined)
   \<and> fst (getMempoolSignature (Resolved Map.empty) ''e5c0'' ''2304'' alice fresh_bridge
            :: (failure + IClientResponse) \<times> bridge)
       = Inl (ThrownTypeError assign_undefined)
   \<and> fst (getTxStage1 plain_lib (Resolved Map.empty) alice ''e5c0'' paid_expectations
            fresh_bridge)
       = Inl (ThrownTypeError assign_undefined)"
proof -
  have h: "progress fresh_bridge ''e5c0'' = None"
    by (simp add: fresh_bridge_def HelixBridgeBTC_new_def)
  show ?thesis
    using h mark_on_missing_record_throws [OF h, of "''No signature''" "''2304''" alice
        plain_lib paid_expectations]
    by simp
qed

section \<open>The restart point\<close>

text \<open>
  C10. A successful \<open>sendFreshTest\<close> replaces the counterparty's whole progress record by
  \<open>{status: 0, lastEvent: now, ourAddress: the caller's address, reasonForFailure: null}\<close>,
  whatever record was there, also one at a later stage or Failed. It is the only
  operation that writes a progress record without one being there already: every other
  operation leaves the set of counterparties with a record as it was.
\<close>

theorem sendFreshTest_replaces_record:
  "sendFreshTest (Resolved u) their kp s =
     (Inr (success ''Fresh test sent'' NoContent),
      s\<lparr>dateCalls := Suc (dateCalls s),
        progress := (progress s)(their \<mapsto>
          \<lparr>status = Some 0, lastEvent = clock s (dateCalls s), ourAddress = address kp,
           reasonForFailure = None\<rparr>)\<rparr>)
   \<and> dom (progress (snd (signFreshTest cs got1 posted kp a s))) = dom (progress s)
   \<and> dom (progress (snd (getFreshTestResponse nv got1 ourAddr kp a s))) = dom (progress s)
   \<and> dom (progress (snd (sendTxStage1 posted a kp tx s))) = dom (progress s)
   \<and> dom (progress (snd (getTxStage1 lib got2 kp a e s))) = dom (progress s)
   \<and> dom (progress (snd (sendTxStage2Partial posted a kp tx s))) = dom (progress s)
   \<and> dom (progress (snd (getTxStage2Partial lib got2 a kp sg s))) = dom (progress s)
   \<and> dom (progress (snd (getMempoolSignature got3 a ourAddr kp s
                            :: (failure + IClientResponse) \<times> bridge))) = dom (progress s)
   \<and> dom (progress (snd (markedErrorInProgress a why s
                            :: (failure + IClientResponse) \<times> bridge))) = dom (progress s)"
proof -
  have mark: "(progress (snd (markedErrorInProgress a why s
                 :: (failure + IClientResponse) \<times> bridge)) b = None) = (progress s b = None)"
    for b
    by (cases "markedErrorInProgress a why s :: (failure + IClientResponse) \<times> bridge")
       (auto dest: absent_markedErrorInProgress [where b = b])
  show ?thesis
    by (simp add: sendFreshTest_def new_Date_def dom_def absent_signFreshTest
          absent_getFreshTestResponse absent_sendTxStage1 absent_getTxStage1
          absent_sendTxStage2Partial absent_getTxStage2Partial absent_getMempoolSignature mark)
qed

end
